theory Spec2Isabelle
  imports Complex_Main "HOL-Library.Word"
begin

section \<open>Python values used by the dataset classes\<close>

text \<open>
  The two dataset classes of \<^verbatim>\<open>step3_table3_run.py\<close>, \<^verbatim>\<open>GTA5\<close> and \<^verbatim>\<open>CityScapes\<close>,
  are embedded as records with one function per method. Every exception the methods can
  raise is a value of \<open>error\<close>; a method returns \<open>error + 'a\<close>.
\<close>

datatype error = IndexError | FileNotFoundError | ValueError

definition bind_err :: "error + 'a \<Rightarrow> ('a \<Rightarrow> error + 'b) \<Rightarrow> error + 'b" where
  "bind_err r f = (case r of Inl e \<Rightarrow> Inl e | Inr x \<Rightarrow> f x)"

text \<open>\<^verbatim>\<open>xs[i]\<close> on a Python list: a negative index counts from the end, and an index
  outside \<open>[-n, n)\<close> raises \<^verbatim>\<open>IndexError\<close>.\<close>

definition py_index :: "'a list \<Rightarrow> int \<Rightarrow> error + 'a" where
  "py_index xs i =
     (if i < - int (length xs) \<or> int (length xs) \<le> i then Inl IndexError
      else if i < 0 then Inr (xs ! nat (int (length xs) + i))
      else Inr (xs ! nat i))"

text \<open>\<^verbatim>\<open>s.split(c)\<close> for a one-character separator: one more part than separators.\<close>

fun py_split :: "char \<Rightarrow> string \<Rightarrow> string list" where
  "py_split c [] = [[]]"
| "py_split c (x # xs) =
     (if x = c then [] # py_split c xs
      else (case py_split c xs of [] \<Rightarrow> [[x]] | p # ps \<Rightarrow> (x # p) # ps))"

text \<open>\<^verbatim>\<open>a in b\<close> on strings: \<open>a\<close> occurs in \<open>b\<close> as a contiguous piece.\<close>

fun py_startswith :: "string \<Rightarrow> string \<Rightarrow> bool" where
  "py_startswith s [] = True"
| "py_startswith [] (p # ps) = False"
| "py_startswith (x # xs) (p # ps) = (x = p \<and> py_startswith xs ps)"

fun py_in :: "string \<Rightarrow> string \<Rightarrow> bool" where
  "py_in a [] = (a = [])"
| "py_in a (x # xs) = (py_startswith (x # xs) a \<or> py_in a xs)"

text \<open>\<^verbatim>\<open>os.path.join(a, b)\<close> on a POSIX system, two components.\<close>

definition os_path_join :: "string \<Rightarrow> string \<Rightarrow> string" where
  "os_path_join a b =
     (if py_startswith b ''/'' then b
      else if a = [] \<or> last a = CHR ''/'' then a @ b
      else a @ ''/'' @ b)"

text \<open>\<^verbatim>\<open>int(round(n / 2.0))\<close> for a natural number \<open>n\<close>: Python rounds a half to the
  even neighbour.\<close>

definition py_round_half :: "nat \<Rightarrow> nat" where
  "py_round_half n =
     (let k = n div 2 in if even n then k else if even k then k else k + 1)"

section \<open>Images and arrays\<close>

text \<open>
  A PIL image has a width, a height and a pixel at every position inside; the pixel
  function is read only inside the image. An RGB pixel is three bytes, a pixel of a label
  image (mode L or P) is one byte.
\<close>

type_synonym byte = "8 word"
type_synonym rgb = "byte \<times> byte \<times> byte"

record 'p pil =
  width :: nat
  height :: nat
  pixel :: "nat \<Rightarrow> nat \<Rightarrow> 'p"

text \<open>
  A label array holds integer values; the constructor records which code path made it:
  \<open>Float32\<close> is the array \<^verbatim>\<open>np.asarray(label, np.float32)\<close> (every byte value is exactly
  a float32, so each entry is written as the integer it denotes), \<open>Encoded\<close> is the array
  \<^verbatim>\<open>encode_segmap\<close> returned.
\<close>

datatype label_array = Float32 (vals: "int list list") | Encoded (vals: "int list list")

type_synonym label2train = "(int \<times> int) list"

record 'f sample =
  s_image :: "'f list list list"
  s_label :: label_array
  s_size :: "nat \<times> nat \<times> nat"
  s_name :: string

text \<open>The file system as the classes read it: the lines of a text file as iterating the
  open file yields them (each with its line end), the \<^verbatim>\<open>label2train\<close> entry of a JSON
  file, the RGB conversion of an image file, and a label image file. A path that is not
  there raises \<^verbatim>\<open>FileNotFoundError\<close>.\<close>

record files =
  text_lines :: "string \<rightharpoonup> string list"
  json_label2train :: "string \<rightharpoonup> label2train"
  image_rgb :: "string \<rightharpoonup> rgb pil"
  image_label :: "string \<rightharpoonup> byte pil"

definition open_file :: "(string \<rightharpoonup> 'a) \<Rightarrow> string \<Rightarrow> error + 'a" where
  "open_file m p = (case m p of None \<Rightarrow> Inl FileNotFoundError | Some x \<Rightarrow> Inr x)"

text \<open>Arithmetic of \<^verbatim>\<open>np.float32\<close> is not computed here: the conversion of a byte to a
  float32 and the in-place subtraction of a mean entry from a float32 are parameters.\<close>

record ('f, 'm) numpy =
  f32 :: "byte \<Rightarrow> 'f"
  isub :: "'f \<Rightarrow> 'm \<Rightarrow> 'f"

subsection \<open>torchvision's CenterCrop\<close>

text \<open>\<^verbatim>\<open>CenterCrop(size)\<close> takes an int (a square) or a pair \<open>(h, w)\<close>.\<close>

datatype crop_size = Square nat | Rect nat nat

fun setup_size :: "crop_size \<Rightarrow> nat \<times> nat" where
  "setup_size (Square s) = (s, s)"
| "setup_size (Rect h w) = (h, w)"

definition pil_pad :: "'p \<Rightarrow> nat \<Rightarrow> nat \<Rightarrow> nat \<Rightarrow> nat \<Rightarrow> 'p pil \<Rightarrow> 'p pil" where
  "pil_pad fill l t r b img =
     \<lparr>width = l + width img + r, height = t + height img + b,
      pixel = (\<lambda>i j. if t \<le> i \<and> i < t + height img \<and> l \<le> j \<and> j < l + width img
                      then pixel img (i - t) (j - l) else fill)\<rparr>"

definition pil_crop :: "nat \<Rightarrow> nat \<Rightarrow> nat \<Rightarrow> nat \<Rightarrow> 'p pil \<Rightarrow> 'p pil" where
  "pil_crop t l h w img =
     \<lparr>width = w, height = h, pixel = (\<lambda>i j. pixel img (t + i) (l + j))\<rparr>"

text \<open>\<^verbatim>\<open>torchvision.transforms.functional.center_crop\<close>: an image smaller than the crop
  is padded with \<open>fill\<close> (zero) on both sides first.\<close>

definition center_crop :: "'p \<Rightarrow> crop_size \<Rightarrow> 'p pil \<Rightarrow> 'p pil" where
  "center_crop fill cs img =
     (let (ch, cw) = setup_size cs;
          small = (cw > width img \<or> ch > height img);
          img1 = (if small
                  then pil_pad fill
                         (if cw > width img then (cw - width img) div 2 else 0)
                         (if ch > height img then (ch - height img) div 2 else 0)
                         (if cw > width img then (cw - width img + 1) div 2 else 0)
                         (if ch > height img then (ch - height img + 1) div 2 else 0)
                         img
                  else img)
      in if small \<and> cw = width img1 \<and> ch = height img1 then img1
         else pil_crop (py_round_half (height img1 - ch)) (py_round_half (width img1 - cw))
                ch cw img1)"

subsection \<open>numpy steps of \<^verbatim>\<open>__getitem__\<close>\<close>

text \<open>\<^verbatim>\<open>np.asarray(image, np.float32)\<close> of an RGB image: shape \<open>(H, W, 3)\<close>.\<close>

definition asarray_rgb :: "('f, 'm) numpy \<Rightarrow> rgb pil \<Rightarrow> 'f list list list" where
  "asarray_rgb np img =
     map (\<lambda>i. map (\<lambda>j. case pixel img i j of (r, g, b) \<Rightarrow> [f32 np r, f32 np g, f32 np b])
                 [0..<width img])
         [0..<height img]"

text \<open>\<^verbatim>\<open>np.asarray(label, np.float32)\<close> of a label image: shape \<open>(H, W)\<close>.\<close>

definition asarray_label :: "byte pil \<Rightarrow> label_array" where
  "asarray_label img =
     Float32 (map (\<lambda>i. map (\<lambda>j. uint (pixel img i j)) [0..<width img]) [0..<height img])"

text \<open>\<^verbatim>\<open>image[:, :, ::-1]\<close>.\<close>

definition reverse_channels :: "'f list list list \<Rightarrow> 'f list list list" where
  "reverse_channels a = map (map rev) a"

text \<open>\<^verbatim>\<open>image -= self.mean\<close> for a one-dimensional mean: numpy broadcasts it over the last
  axis (length 3) when its length is 3 or 1, and raises \<^verbatim>\<open>ValueError\<close> otherwise.\<close>

definition sub_mean :: "('f, 'm) numpy \<Rightarrow> 'm list \<Rightarrow> 'f list list list \<Rightarrow> error + 'f list list list" where
  "sub_mean np mean a =
     (if length mean = 3 then Inr (map (map (\<lambda>px. map2 (isub np) px mean)) a)
      else if length mean = 1 then Inr (map (map (map (\<lambda>v. isub np v (hd mean)))) a)
      else Inl ValueError)"

text \<open>\<^verbatim>\<open>image.transpose((2, 0, 1))\<close> of an array of shape \<open>(H, W, 3)\<close>.\<close>

definition transpose_201 :: "'f list list list \<Rightarrow> 'f list list list" where
  "transpose_201 a = map (\<lambda>c. map (map (\<lambda>px. px ! c)) a) [0..<3]"

section \<open>The Label Codec\<close>

text \<open>
  Modelled from the spec: \<^verbatim>\<open>encode_segmap\<close> is imported from \<^verbatim>\<open>dataset.utils\<close>, which is
  not among the sources. The spec (4.1): for every pixel, look up the raw id in the map;
  unmapped raw ids map to the ignore value; nothing is raised.
\<close>

definition encode_pixel :: "label2train \<Rightarrow> int \<Rightarrow> int \<Rightarrow> int" where
  "encode_pixel m ign k = (case map_of m k of None \<Rightarrow> ign | Some t \<Rightarrow> t)"

definition encode_segmap :: "label_array \<Rightarrow> label2train \<Rightarrow> int \<Rightarrow> label_array" where
  "encode_segmap lbl m ign = Encoded (map (map (encode_pixel m ign)) (vals lbl))"

text \<open>
  Modelled from the spec: the identity extension of a map (4.1), used when an encoded
  label is encoded again: the ignore value and every training id the map produces are
  mapped to themselves, every other raw id as the map says.
\<close>

definition identity_extension :: "label2train \<Rightarrow> int \<Rightarrow> label2train" where
  "identity_extension m ign = (ign, ign) # map (\<lambda>(k, t). (t, t)) m @ m"

section \<open>The dataset classes\<close>

text \<open>An entry of \<^verbatim>\<open>self.files\<close>: the dict with keys \<^verbatim>\<open>image\<close>, \<^verbatim>\<open>label\<close>, \<^verbatim>\<open>name\<close>.\<close>

record file_entry =
  f_image :: string
  f_label :: string
  f_name :: string

text \<open>\<^verbatim>\<open>self.transform\<close> is any callable on an image and its label; what one call of it
  returns (or raises) is the function's value.\<close>

type_synonym transform_fn = "rgb pil \<times> byte pil \<Rightarrow> error + rgb pil \<times> byte pil"

text \<open>A list comprehension whose element expression may raise: the first exception ends it.\<close>

fun comprehend :: "('a \<Rightarrow> error + 'b) \<Rightarrow> 'a list \<Rightarrow> error + 'b list" where
  "comprehend f [] = Inr []"
| "comprehend f (x # xs) =
     bind_err (f x) (\<lambda>y. bind_err (comprehend f xs) (\<lambda>ys. Inr (y # ys)))"

subsection \<open>GTA5\<close>

record 'm GTA5 =
  gta5_root :: string
  gta5_crop_size :: crop_size
  gta5_transform :: "transform_fn option"
  gta5_ignore_index :: int
  gta5_mean :: "'m list"
  gta5_files :: "file_entry list"
  gta5_image_dir :: string
  gta5_label_dir :: string
  gta5_img_ids :: "string list"
  gta5_class_mapping :: label2train

text \<open>\<^verbatim>\<open>line.split('.')[0]\<close>\<close>

definition GTA5_img_id :: "string \<Rightarrow> error + string" where
  "GTA5_img_id line = py_index (py_split CHR ''.'' line) 0"

definition GTA5_init ::
  "files \<Rightarrow> string \<Rightarrow> 'm list \<Rightarrow> crop_size \<Rightarrow> transform_fn option \<Rightarrow> int option \<Rightarrow> int
     \<Rightarrow> error + 'm GTA5" where
  "GTA5_init fs dataroot mean crop_size transform max_iters ignore_index =
     (let image_dir = os_path_join dataroot ''images/'';
          label_dir = os_path_join dataroot ''labels/'';
          file_list = os_path_join dataroot ''train.txt''
      in bind_err (open_file (text_lines fs) file_list) (\<lambda>lines.
         bind_err (comprehend GTA5_img_id lines) (\<lambda>img_ids.
         bind_err (open_file (json_label2train fs) ''./data/GTA5/info.json'') (\<lambda>class_mapping.
         Inr \<lparr>gta5_root = dataroot, gta5_crop_size = crop_size, gta5_transform = transform,
              gta5_ignore_index = ignore_index, gta5_mean = mean,
              gta5_files = map (\<lambda>name. \<lparr>f_image = image_dir @ name @ ''.png'',
                                          f_label = label_dir @ name @ ''.png'',
                                          f_name = name\<rparr>) img_ids,
              gta5_image_dir = image_dir, gta5_label_dir = label_dir,
              gta5_img_ids = img_ids, gta5_class_mapping = class_mapping\<rparr>))))"

definition GTA5_len :: "'m GTA5 \<Rightarrow> nat" where
  "GTA5_len ds = length (gta5_files ds)"

text \<open>The steps from \<^verbatim>\<open>size = image.shape\<close> to the \<^verbatim>\<open>return\<close>, the same in both classes.
  The shape of \<^verbatim>\<open>np.asarray\<close> of an RGB image is \<open>(height, width, 3)\<close>.\<close>

definition finish_sample ::
  "('f, 'm) numpy \<Rightarrow> 'm list \<Rightarrow> rgb pil \<Rightarrow> label_array \<Rightarrow> string \<Rightarrow> error + 'f sample" where
  "finish_sample np mean img lbl name =
     (let arr = asarray_rgb np img;
          size = (height img, width img, 3::nat);
          arr1 = reverse_channels arr
      in bind_err (sub_mean np mean arr1) (\<lambda>arr2.
         Inr \<lparr>s_image = transpose_201 arr2, s_label = lbl, s_size = size, s_name = name\<rparr>))"

definition GTA5_getitem ::
  "('f, 'm) numpy \<Rightarrow> files \<Rightarrow> 'm GTA5 \<Rightarrow> int \<Rightarrow> error + 'f sample" where
  "GTA5_getitem np fs ds index =
     bind_err (py_index (gta5_files ds) index) (\<lambda>file.
     bind_err (open_file (image_rgb fs) (f_image file)) (\<lambda>image0.
     bind_err (open_file (image_label fs) (f_label file)) (\<lambda>label0.
     bind_err (case gta5_transform ds of None \<Rightarrow> Inr (image0, label0)
               | Some t \<Rightarrow> t (image0, label0)) (\<lambda>(image1, label1).
       let image2 = center_crop (0, 0, 0) (gta5_crop_size ds) image1;
           label2 = center_crop 0 (gta5_crop_size ds) label1;
           label3 = asarray_label label2;
           label4 = encode_segmap label3 (gta5_class_mapping ds) (gta5_ignore_index ds)
       in finish_sample np (gta5_mean ds) image2 label4 (f_name file)))))"

subsection \<open>CityScapes\<close>

record 'm CityScapes =
  cs_root :: string
  cs_mean :: "'m list"
  cs_crop_size :: crop_size
  cs_transform :: "transform_fn option"
  cs_train :: bool
  cs_ignore_index :: int
  cs_files :: "file_entry list"
  cs_set :: string
  cs_ssl :: "bool option"
  cs_image_dir :: string
  cs_label_dir :: string
  cs_img_ids :: "string list"
  cs_class_mapping :: label2train

text \<open>\<^verbatim>\<open>line.split('/')[0] + '_' + line.split('_')[1] + '_' + line.split('_')[2]\<close>\<close>

definition CityScapes_img_id :: "string \<Rightarrow> error + string" where
  "CityScapes_img_id line =
     bind_err (py_index (py_split CHR ''/'' line) 0) (\<lambda>a.
     bind_err (py_index (py_split CHR ''_'' line) 1) (\<lambda>b.
     bind_err (py_index (py_split CHR ''_'' line) 2) (\<lambda>c.
     Inr (a @ ''_'' @ b @ ''_'' @ c))))"

definition CityScapes_init ::
  "files \<Rightarrow> string \<Rightarrow> 'm list \<Rightarrow> crop_size \<Rightarrow> transform_fn option \<Rightarrow> bool \<Rightarrow> int option \<Rightarrow> int
     \<Rightarrow> bool option \<Rightarrow> error + 'm CityScapes" where
  "CityScapes_init fs dataroot mean crop_size transform train max_iters ignore_index ssl =
     (let image_dir = os_path_join dataroot ''images/'';
          label_dir = os_path_join dataroot ''labels/'';
          file_list = (if train = True then os_path_join dataroot ''train.txt''
                       else os_path_join dataroot ''val.txt'')
      in bind_err (open_file (text_lines fs) file_list) (\<lambda>lines.
         bind_err (comprehend CityScapes_img_id lines) (\<lambda>img_ids.
         bind_err (open_file (json_label2train fs) ''./data/cityscapes/info.json'')
           (\<lambda>class_mapping.
         Inr \<lparr>cs_root = dataroot, cs_mean = mean, cs_crop_size = crop_size,
              cs_transform = transform, cs_train = train, cs_ignore_index = ignore_index,
              cs_files = map (\<lambda>name. \<lparr>f_image = image_dir @ name @ ''_leftImg8bit.png'',
                                        f_label = label_dir @ name @ ''_gtFine_labelIds.png'',
                                        f_name = name\<rparr>) img_ids,
              cs_set = (if train then ''train'' else ''val''), cs_ssl = ssl,
              cs_image_dir = image_dir, cs_label_dir = label_dir,
              cs_img_ids = img_ids, cs_class_mapping = class_mapping\<rparr>))))"

definition CityScapes_len :: "'m CityScapes \<Rightarrow> nat" where
  "CityScapes_len ds = length (cs_files ds)"

definition CityScapes_getitem ::
  "('f, 'm) numpy \<Rightarrow> files \<Rightarrow> 'm CityScapes \<Rightarrow> int \<Rightarrow> error + 'f sample" where
  "CityScapes_getitem np fs ds index =
     bind_err (py_index (cs_files ds) index) (\<lambda>file.
     bind_err (open_file (image_rgb fs) (f_image file)) (\<lambda>image0.
     bind_err (open_file (image_label fs) (f_label file)) (\<lambda>label0.
     bind_err (case cs_transform ds of None \<Rightarrow> Inr (image0, label0)
               | Some t \<Rightarrow> t (image0, label0)) (\<lambda>(image1, label1).
       let image2 = (if py_in ''train'' (cs_set ds)
                     then center_crop (0, 0, 0) (cs_crop_size ds) image1 else image1);
           label2 = (if py_in ''train'' (cs_set ds)
                     then center_crop 0 (cs_crop_size ds) label1 else label1);
           label3 = asarray_label label2;
           label4 = (if cs_ssl ds \<noteq> Some True
                     then encode_segmap label3 (cs_class_mapping ds) (cs_ignore_index ds)
                     else label3)
       in finish_sample np (cs_mean ds) image2 label4 (f_name file)))))"

section \<open>Paired augmentation\<close>

text \<open>
  Modelled from the spec: \<^verbatim>\<open>utils.transform\<close> (\<^verbatim>\<open>Compose\<close>, \<^verbatim>\<open>HorizontalFlip\<close>,
  \<^verbatim>\<open>RandomScale\<close>) is not among the sources; \<^verbatim>\<open>main\<close> only builds the transform and
  \<^verbatim>\<open>__getitem__\<close> only calls it on the image and its label. The spec (4.2): given an image
  and its label, apply a single randomly sampled transform (horizontal flip with fixed
  probability, or rescale by a factor drawn from a discrete candidate set) to both with
  the same sampled parameters. What the random generator yields for one call is the
  record \<open>draws\<close>; how an image and a label are resampled to a scale is a parameter.
\<close>

datatype transform = HorizontalFlip | RandomScale "rat list"

record draws =
  d_which :: nat
  d_coin :: bool
  d_factor :: nat

record resamplers =
  rescale_image :: "rat \<Rightarrow> rgb pil \<Rightarrow> rgb pil"
  rescale_label :: "rat \<Rightarrow> byte pil \<Rightarrow> byte pil"

definition hflip :: "'p pil \<Rightarrow> 'p pil" where
  "hflip img = img\<lparr>pixel := (\<lambda>i j. pixel img i (width img - 1 - j))\<rparr>"

fun apply_transform :: "resamplers \<Rightarrow> draws \<Rightarrow> transform \<Rightarrow> transform_fn" where
  "apply_transform rs d HorizontalFlip (img, lbl) =
     (if d_coin d then Inr (hflip img, hflip lbl) else Inr (img, lbl))"
| "apply_transform rs d (RandomScale factors) (img, lbl) =
     bind_err (py_index factors (int (d_factor d mod length factors))) (\<lambda>s.
       Inr (rescale_image rs s img, rescale_label rs s lbl))"

definition Compose :: "resamplers \<Rightarrow> draws \<Rightarrow> transform list \<Rightarrow> transform_fn" where
  "Compose rs d ts =
     (\<lambda>(img, lbl). if ts = [] then Inr (img, lbl)
                    else apply_transform rs d (ts ! (d_which d mod length ts)) (img, lbl))"

text \<open>The transform \<^verbatim>\<open>main\<close> builds (lines 213 to 216).\<close>

definition main_transform :: "resamplers \<Rightarrow> draws \<Rightarrow> transform_fn" where
  "main_transform rs d = Compose rs d [HorizontalFlip, RandomScale [1 / 2, 3 / 4, 1, 3 / 2]]"

section \<open>A small file system\<close>

text \<open>One source-domain sample and one target-domain sample under the root \<^verbatim>\<open>r\<close>: each a
  1 by 2 image with two label pixels, raw ids 7 and 9.\<close>

definition ex_rgb :: "rgb pil" where
  "ex_rgb = \<lparr>width = 2, height = 1,
             pixel = (\<lambda>i j. if j = 0 then (10, 20, 30) else (40, 50, 60))\<rparr>"

definition ex_lab :: "byte pil" where
  "ex_lab = \<lparr>width = 2, height = 1, pixel = (\<lambda>i j. if j = 0 then 7 else 9)\<rparr>"

definition ex_map :: label2train where
  "ex_map = [(7, 0), (8, 1), (11, 2)]"

definition ex_fs :: files where
  "ex_fs = \<lparr>text_lines = [''r/train.txt'' \<mapsto> [''a.png'' @ [CHR 0x0A]],
                          ''r/val.txt'' \<mapsto> [''x/x_1_2_leftImg8bit.png'' @ [CHR 0x0A]]],
            json_label2train = [''./data/GTA5/info.json'' \<mapsto> ex_map,
                                ''./data/cityscapes/info.json'' \<mapsto> ex_map],
            image_rgb = [''r/images/a.png'' \<mapsto> ex_rgb,
                         ''r/images/x_1_2_leftImg8bit.png'' \<mapsto> ex_rgb],
            image_label = [''r/labels/a.png'' \<mapsto> ex_lab,
                           ''r/labels/x_1_2_gtFine_labelIds.png'' \<mapsto> ex_lab]\<rparr>"

text \<open>Floats written as integers, with exact subtraction: enough to run the pipeline on
  the small file system.\<close>

definition ex_np :: "(int, int) numpy" where
  "ex_np = \<lparr>f32 = uint, isub = (\<lambda>v m. v - m)\<rparr>"

definition ex_mean :: "int list" where
  "ex_mean = [1, 2, 3]"

definition ex_files_gta5 :: "file_entry list" where
  "ex_files_gta5 = [\<lparr>f_image = ''r/images/a.png'', f_label = ''r/labels/a.png'', f_name = ''a''\<rparr>]"

definition ex_gta5 :: "int GTA5" where
  "ex_gta5 = \<lparr>gta5_root = ''r'', gta5_crop_size = Square 1, gta5_transform = None,
              gta5_ignore_index = 255, gta5_mean = ex_mean, gta5_files = ex_files_gta5,
              gta5_image_dir = ''r/images/'', gta5_label_dir = ''r/labels/'',
              gta5_img_ids = [''a''], gta5_class_mapping = ex_map\<rparr>"

definition ex_files_cs :: "file_entry list" where
  "ex_files_cs = [\<lparr>f_image = ''r/images/x_1_2_leftImg8bit.png'',
                   f_label = ''r/labels/x_1_2_gtFine_labelIds.png'', f_name = ''x_1_2''\<rparr>]"

definition ex_cs :: "bool \<Rightarrow> bool option \<Rightarrow> int CityScapes" where
  "ex_cs train ssl =
     \<lparr>cs_root = ''r'', cs_mean = ex_mean, cs_crop_size = Square 1, cs_transform = None,
      cs_train = train, cs_ignore_index = 255, cs_files = ex_files_cs,
      cs_set = (if train then ''train'' else ''val''), cs_ssl = ssl,
      cs_image_dir = ''r/images/'', cs_label_dir = ''r/labels/'',
      cs_img_ids = [''x_1_2''], cs_class_mapping = ex_map\<rparr>"

definition ex_rs :: resamplers where
  "ex_rs = \<lparr>rescale_image = (\<lambda>s img. img), rescale_label = (\<lambda>s lbl. lbl)\<rparr>"

text \<open>The same file system with empty manifests.\<close>

definition ex_fs_empty :: files where
  "ex_fs_empty = ex_fs\<lparr>text_lines := [''r/train.txt'' \<mapsto> [], ''r/val.txt'' \<mapsto> []]\<rparr>"

text \<open>A 1 by 5 label strip whose pixel in column \<open>j\<close> has the value \<open>j\<close>.\<close>

definition ex_strip :: "byte pil" where
  "ex_strip = \<lparr>width = 5, height = 1, pixel = (\<lambda>i j. of_nat j)\<rparr>"

section \<open>Notions used to state the properties\<close>

text \<open>An image and its label paired pixel by pixel: cropping the pair shows where the crop
  reads each of the two.\<close>

definition pil_zip :: "'p pil \<Rightarrow> 'q pil \<Rightarrow> ('p \<times> 'q) pil" where
  "pil_zip a b = \<lparr>width = width a, height = height a,
                   pixel = (\<lambda>i j. (pixel a i j, pixel b i j))\<rparr>"

text \<open>The padded image inside \<open>center_crop\<close>, named for the proofs.\<close>

definition padded :: "'p \<Rightarrow> nat \<Rightarrow> nat \<Rightarrow> 'p pil \<Rightarrow> 'p pil" where
  "padded fill ch cw img =
     pil_pad fill (if cw > width img then (cw - width img) div 2 else 0)
       (if ch > height img then (ch - height img) div 2 else 0)
       (if cw > width img then (cw - width img + 1) div 2 else 0)
       (if ch > height img then (ch - height img + 1) div 2 else 0) img"

text \<open>The image of a Sample as the spec words it (section 3): channel order reversed,
  mean-centred, channel-first. Entry \<open>(c, h, w)\<close> is channel \<open>c\<close> in the order blue, green,
  red of pixel \<open>(h, w)\<close>, as a float32, minus the mean entry for \<open>c\<close>.\<close>

fun bgr_channel :: "nat \<Rightarrow> rgb \<Rightarrow> byte" where
  "bgr_channel c (r, g, b) = (if c = 0 then b else if c = 1 then g else r)"

definition spec_image :: "('f, 'm) numpy \<Rightarrow> 'm list \<Rightarrow> rgb pil \<Rightarrow> 'f list list list" where
  "spec_image np mean img =
     map (\<lambda>c. map (\<lambda>h. map (\<lambda>w. isub np (f32 np (bgr_channel c (pixel img h w)))
                                      (if length mean = 3 then mean ! c else hd mean))
                          [0..<width img])
                [0..<height img])
         [0..<3]"

text \<open>A sample whose image has shape \<open>[3, h, w]\<close>, whose label has shape \<open>[h, w]\<close> and whose
  size is \<open>(h, w, 3)\<close>.\<close>

definition sample_dims :: "'f sample \<Rightarrow> nat \<Rightarrow> nat \<Rightarrow> bool" where
  "sample_dims s h w \<longleftrightarrow>
     s_size s = (h, w, 3) \<and> length (s_image s) = 3
     \<and> (\<forall>p \<in> set (s_image s). length p = h \<and> (\<forall>r \<in> set p. length r = w))
     \<and> length (vals (s_label s)) = h \<and> (\<forall>r \<in> set (vals (s_label s)). length r = w)"

text \<open>The offset of a centred window, stated without the rounding function of the code:
  half the surplus \<open>d\<close>, and for an odd surplus the even one of the two neighbours of
  \<open>d / 2\<close> (a surplus of 3 gives 2, a surplus of 5 gives 2).\<close>

definition centre :: "nat \<Rightarrow> nat" where
  "centre d = (if d mod 2 = 0 then d div 2 else 2 * ((d + 1) div 4))"

text \<open>The crop rectangle along one axis: where entry \<open>i\<close> of a center crop of length \<open>c\<close>
  is read in an input of length \<open>n\<close>. An input that is long enough is read at
  \<open>centre (n - c) + i\<close>. A shorter input lies behind \<open>(c - n) div 2\<close> fill entries, and an
  entry before or after it has no source (\<open>None\<close>: it holds the fill value).\<close>

definition crop_source :: "nat \<Rightarrow> nat \<Rightarrow> nat \<Rightarrow> nat option" where
  "crop_source c n i =
     (if n < c
      then (if (c - n) div 2 \<le> i \<and> i < (c - n) div 2 + n then Some (i - (c - n) div 2) else None)
      else Some (centre (n - c) + i))"

text \<open>A matrix \<open>M\<close> of shape \<open>[H, W]\<close>, the height and width of the label image \<open>lbl\<close>,
  whose entry \<open>(i, j)\<close> is \<open>f\<close> of the value of pixel \<open>(i, j)\<close> of \<open>lbl\<close>.\<close>

definition label_matrix :: "(int \<Rightarrow> int) \<Rightarrow> byte pil \<Rightarrow> int list list \<Rightarrow> bool" where
  "label_matrix f lbl M \<longleftrightarrow>
     length M = height lbl
     \<and> (\<forall>i < height lbl. length (M ! i) = width lbl
           \<and> (\<forall>j < width lbl. M ! i ! j = f (uint (pixel lbl i j))))"

section \<open>Samples of the small file system\<close>

definition ex_sample_gta5 :: "int sample" where
  "ex_sample_gta5 = \<lparr>s_image = [[[29]], [[18]], [[7]]], s_label = Encoded [[0]],
                     s_size = (1, 1, 3), s_name = ''a''\<rparr>"

definition ex_sample_gta5_zero :: "int sample" where
  "ex_sample_gta5_zero = \<lparr>s_image = [[[30]], [[20]], [[10]]], s_label = Encoded [[0]],
                          s_size = (1, 1, 3), s_name = ''a''\<rparr>"

definition ex_sample_val :: "int sample" where
  "ex_sample_val = \<lparr>s_image = [[[29, 59]], [[18, 48]], [[7, 37]]],
                    s_label = Encoded [[0, 255]], s_size = (1, 2, 3), s_name = ''x_1_2''\<rparr>"

definition ex_sample_ssl :: "int sample" where
  "ex_sample_ssl = \<lparr>s_image = [[[29, 59]], [[18, 48]], [[7, 37]]],
                    s_label = Float32 [[7, 9]], s_size = (1, 2, 3), s_name = ''x_1_2''\<rparr>"

definition ex_sample_train :: "int sample" where
  "ex_sample_train = \<lparr>s_image = [[[29]], [[18]], [[7]]], s_label = Encoded [[0]],
                      s_size = (1, 1, 3), s_name = ''x_1_2''\<rparr>"

definition ex_draws :: draws where
  "ex_draws = \<lparr>d_which = 1, d_coin = False, d_factor = 3\<rparr>"

section \<open>Python helpers: basic facts\<close>

lemma bind_err_Inr_iff: "bind_err r f = Inr y \<longleftrightarrow> (\<exists>x. r = Inr x \<and> f x = Inr y)"
  by (cases r) (simp_all add: bind_err_def)

lemma bind_err_Inl_left: "bind_err (Inl e) f = Inl e"
  by (simp add: bind_err_def)

lemma bind_err_Inr_left: "bind_err (Inr x) f = f x"
  by (simp add: bind_err_def)

lemma py_index_out_of_range:
  "i < - int (length xs) \<or> int (length xs) \<le> i \<Longrightarrow> py_index xs i = Inl IndexError"
  by (auto simp: py_index_def Let_def)

lemma py_index_negative:
  "- int (length xs) \<le> i \<Longrightarrow> i < 0 \<Longrightarrow> py_index xs i = py_index xs (int (length xs) + i)"
  by (auto simp: py_index_def Let_def)

lemma py_index_in_range:
  "0 \<le> i \<Longrightarrow> i < int (length xs) \<Longrightarrow> py_index xs i = Inr (xs ! nat i)"
  by (auto simp: py_index_def Let_def)

lemma py_split_not_Nil: "py_split c s \<noteq> []"
  by (induction s) (auto split: list.splits)

lemma GTA5_img_id_total: "\<exists>name. GTA5_img_id line = Inr name"
  using py_split_not_Nil [of "CHR ''.''" line]
  by (simp add: GTA5_img_id_def py_index_def)

lemma comprehend_length: "comprehend f xs = Inr ys \<Longrightarrow> length ys = length xs"
  by (induction xs arbitrary: ys) (auto simp: bind_err_Inr_iff)

lemma comprehend_total: "(\<And>x. \<exists>y. f x = Inr y) \<Longrightarrow> \<exists>ys. comprehend f xs = Inr ys"
proof (induction xs)
  case Nil
  show ?case by simp
next
  case (Cons x xs)
  from Cons.prems obtain y where "f x = Inr y" by blast
  moreover from Cons obtain ys where "comprehend f xs = Inr ys" by blast
  ultimately show ?case by (simp add: bind_err_def)
qed

lemma GTA5_init_len:
  "GTA5_init fs dr mean cs tr mi ign = Inr ds \<Longrightarrow>
   text_lines fs (os_path_join dr ''train.txt'') = Some lines \<Longrightarrow> GTA5_len ds = length lines"
  by (auto simp: GTA5_init_def GTA5_len_def Let_def bind_err_Inr_iff open_file_def
           dest: comprehend_length split: option.splits)

lemma CityScapes_init_len:
  "CityScapes_init fs dr mean cs tr train mi ign ssl = Inr ds \<Longrightarrow>
   text_lines fs (os_path_join dr (if train then ''train.txt'' else ''val.txt'')) = Some lines \<Longrightarrow>
   CityScapes_len ds = length lines"
  by (auto simp: CityScapes_init_def CityScapes_len_def Let_def bind_err_Inr_iff open_file_def
           dest: comprehend_length split: option.splits if_splits)

lemma GTA5_init_succeeds:
  assumes "text_lines fs (os_path_join dr ''train.txt'') = Some lines"
      and "json_label2train fs ''./data/GTA5/info.json'' = Some m"
  shows "\<exists>ds. GTA5_init fs dr mean cs tr mi ign = Inr ds"
proof -
  obtain ids where "comprehend GTA5_img_id lines = Inr ids"
    using comprehend_total [of GTA5_img_id lines] GTA5_img_id_total by blast
  with assms show ?thesis
    by (simp add: GTA5_init_def Let_def open_file_def bind_err_def)
qed

lemma width_center_crop: "width (center_crop fill cs img) = snd (setup_size cs)"
  by (cases "setup_size cs") (auto simp: center_crop_def Let_def pil_crop_def pil_pad_def)

lemma height_center_crop: "height (center_crop fill cs img) = fst (setup_size cs)"
  by (cases "setup_size cs") (auto simp: center_crop_def Let_def pil_crop_def pil_pad_def)

lemma encode_pixel_absent: "map_of m k = None \<Longrightarrow> encode_pixel m ign k = ign"
  by (simp add: encode_pixel_def)

lemma encode_pixel_present: "map_of m k = Some t \<Longrightarrow> encode_pixel m ign k = t"
  by (simp add: encode_pixel_def)

lemma vals_encode_segmap: "vals (encode_segmap L m ign) = map (map (encode_pixel m ign)) (vals L)"
  by (simp add: encode_segmap_def)

section \<open>The Label Codec: properties\<close>

text \<open>
  C1. With the map \<open>{7:0, 8:1, 11:2}\<close> and ignore value 255, the raw label matrix with
  entries 7, 8, 11, 9 encodes to 0, 1, 2, 255 at the same positions. In general the
  encoded matrix has the shape of the raw one, and each entry is the map's value for the
  raw id there, or the ignore value when the raw id is not in the map; the codec returns
  an array for every input, it has no error result.
\<close>

theorem encode_segmap_scenario:
  "encode_segmap (Float32 [[7, 8], [11, 9]]) [(7, 0), (8, 1), (11, 2)] 255 = Encoded [[0, 1], [2, 255]]
   \<and> length (vals (encode_segmap L m ign)) = length (vals L)
   \<and> (i < length (vals L) \<longrightarrow>
        length (vals (encode_segmap L m ign) ! i) = length (vals L ! i))
   \<and> (i < length (vals L) \<longrightarrow> j < length (vals L ! i) \<longrightarrow>
        vals (encode_segmap L m ign) ! i ! j =
          (case map_of m (vals L ! i ! j) of None \<Rightarrow> ign | Some t \<Rightarrow> t))"
proof -
  have "encode_segmap (Float32 [[7, 8], [11, 9]]) [(7, 0), (8, 1), (11, 2)] 255
          = Encoded [[0, 1], [2, 255]]"
    by (simp add: encode_segmap_def encode_pixel_def)
  moreover have "i < length (vals L) \<Longrightarrow> j < length (vals L ! i) \<Longrightarrow>
        vals (encode_segmap L m ign) ! i ! j =
          (case map_of m (vals L ! i ! j) of None \<Rightarrow> ign | Some t \<Rightarrow> t)"
    by (simp add: vals_encode_segmap encode_pixel_def)
  ultimately show ?thesis
    by (simp add: vals_encode_segmap)
qed

theorem encode_segmap_scenario_witness:
  "(1::nat) < length (vals (Float32 [[7, 8], [11, 9]]))
   \<and> (1::nat) < length (vals (Float32 [[7, 8], [11, 9]]) ! 1)
   \<and> map_of ex_map (vals (Float32 [[7, 8], [11, 9]]) ! 1 ! 1) = None
   \<and> vals (encode_segmap (Float32 [[7, 8], [11, 9]]) ex_map 255) ! 1 ! 1 = 255"
  using encode_segmap_scenario [of "Float32 [[7, 8], [11, 9]]" ex_map 255 1 1]
  by (simp add: ex_map_def)

text \<open>The identity extension looks a value up as itself when it is the ignore value or a
  training id of the map, and as the map does otherwise.\<close>

lemma map_of_diag:
  "map_of (map (\<lambda>(k, t). (t, t)) m) x = (if x \<in> snd ` set m then Some x else None)"
  by (induction m) auto

lemma map_of_identity_extension:
  "map_of (identity_extension m ign) x =
     (if x = ign \<or> x \<in> snd ` set m then Some x else map_of m x)"
  by (auto simp: identity_extension_def map_add_def map_of_diag)

lemma encode_pixel_range: "encode_pixel m ign k = ign \<or> encode_pixel m ign k \<in> snd ` set m"
  by (auto simp: encode_pixel_def split: option.splits dest!: map_of_SomeD intro: rev_image_eqI)

lemma encode_pixel_extension_fixed:
  "v = ign \<or> v \<in> snd ` set m \<Longrightarrow> encode_pixel (identity_extension m ign) ign v = v"
  by (auto simp: encode_pixel_def map_of_identity_extension)

lemma encode_pixel_extension_range:
  "encode_pixel (identity_extension m ign) ign k = ign
   \<or> encode_pixel (identity_extension m ign) ign k \<in> snd ` set m"
  using encode_pixel_range [of m ign k]
  by (auto simp: encode_pixel_def map_of_identity_extension)

text \<open>
  C6. Encoding is idempotent under the identity extension: encoding an encoded label
  again, with the ignore value and the training ids as fixed points, returns the same
  label; and the codec of the extended map is idempotent outright.
\<close>

theorem encode_idempotent:
  "encode_segmap (encode_segmap L m ign) (identity_extension m ign) ign = encode_segmap L m ign
   \<and> encode_segmap (encode_segmap L (identity_extension m ign) ign) (identity_extension m ign) ign
       = encode_segmap L (identity_extension m ign) ign"
  by (simp add: encode_segmap_def encode_pixel_extension_fixed encode_pixel_range
        encode_pixel_extension_range)

text \<open>Without the extension a second pass is not the identity: 7 encodes to 0, and 0 is
  not a raw id of the map.\<close>

lemma plain_reencode_differs:
  "encode_segmap (encode_segmap (Float32 [[7]]) ex_map 255) ex_map 255
     \<noteq> encode_segmap (Float32 [[7]]) ex_map 255"
  by (simp add: encode_segmap_def encode_pixel_def ex_map_def)

section \<open>Construction and length\<close>

text \<open>
  C10. \<^verbatim>\<open>max_iters\<close> is accepted and never used: both constructors return the same result
  for every two values of it, and the length of a constructed dataset is the number of
  lines of its manifest. \<^verbatim>\<open>GTA5\<close> is constructed whenever its manifest and its metadata
  file are there.
\<close>

theorem max_iters_unused:
  "GTA5_init fs dr mean cs tr mi ign = GTA5_init fs dr mean cs tr mi' ign
   \<and> CityScapes_init fs dr mean cs tr train mi ign ssl
       = CityScapes_init fs dr mean cs tr train mi' ign ssl
   \<and> (text_lines fs (os_path_join dr ''train.txt'') = Some lines \<longrightarrow>
        GTA5_init fs dr mean cs tr mi ign = Inr g \<longrightarrow> GTA5_len g = length lines)
   \<and> (text_lines fs (os_path_join dr ''train.txt'') = Some lines \<longrightarrow>
        json_label2train fs ''./data/GTA5/info.json'' = Some m \<longrightarrow>
        (\<exists>g'. GTA5_init fs dr mean cs tr mi ign = Inr g'))
   \<and> (text_lines fs (os_path_join dr (if train then ''train.txt'' else ''val.txt'')) = Some lines' \<longrightarrow>
        CityScapes_init fs dr mean cs tr train mi ign ssl = Inr c \<longrightarrow>
        CityScapes_len c = length lines')"
proof -
  have "GTA5_init fs dr mean cs tr mi ign = GTA5_init fs dr mean cs tr mi' ign"
    by (simp add: GTA5_init_def)
  moreover have "CityScapes_init fs dr mean cs tr train mi ign ssl
       = CityScapes_init fs dr mean cs tr train mi' ign ssl"
    by (simp add: CityScapes_init_def)
  ultimately show ?thesis
    using GTA5_init_len [of fs dr mean cs tr mi ign g lines]
      GTA5_init_succeeds [of fs dr lines m mean cs tr mi ign]
      CityScapes_init_len [of fs dr mean cs tr train mi ign ssl c lines']
    by blast
qed

lemma ex_gta5_init: "GTA5_init ex_fs ''r'' ex_mean (Square 1) None mi 255 = Inr ex_gta5"
  by (simp add: GTA5_init_def ex_fs_def os_path_join_def bind_err_def open_file_def
        GTA5_img_id_def py_index_def ex_gta5_def ex_files_gta5_def Let_def)

lemma ex_cs_init:
  "CityScapes_init ex_fs ''r'' ex_mean (Square 1) None False mi 255 ssl = Inr (ex_cs False ssl)"
  by (simp add: CityScapes_init_def ex_fs_def os_path_join_def bind_err_def open_file_def
        CityScapes_img_id_def py_index_def ex_cs_def ex_files_cs_def Let_def)

theorem max_iters_unused_witness:
  "text_lines ex_fs (os_path_join ''r'' ''train.txt'') = Some [''a.png'' @ [CHR 0x0A]]
   \<and> json_label2train ex_fs ''./data/GTA5/info.json'' = Some ex_map
   \<and> GTA5_init ex_fs ''r'' ex_mean (Square 1) None (Some 7) 255 = Inr ex_gta5
   \<and> GTA5_len ex_gta5 = length [''a.png'' @ [CHR 0x0A]]
   \<and> text_lines ex_fs (os_path_join ''r'' (if False then ''train.txt'' else ''val.txt''))
        = Some [''x/x_1_2_leftImg8bit.png'' @ [CHR 0x0A]]
   \<and> CityScapes_init ex_fs ''r'' ex_mean (Square 1) None False (Some 7) 255 None
        = Inr (ex_cs False None)
   \<and> CityScapes_len (ex_cs False None) = length [''x/x_1_2_leftImg8bit.png'' @ [CHR 0x0A]]"
proof -
  have a: "text_lines ex_fs (os_path_join ''r'' ''train.txt'') = Some [''a.png'' @ [CHR 0x0A]]"
    by (simp add: ex_fs_def os_path_join_def)
  have b: "text_lines ex_fs (os_path_join ''r'' (if False then ''train.txt'' else ''val.txt''))
        = Some [''x/x_1_2_leftImg8bit.png'' @ [CHR 0x0A]]"
    by (simp add: ex_fs_def os_path_join_def)
  have j: "json_label2train ex_fs ''./data/GTA5/info.json'' = Some ex_map"
    by (simp add: ex_fs_def)
  note t = max_iters_unused [where fs = ex_fs and dr = "''r''" and mean = ex_mean
      and cs = "Square 1" and tr = None and mi = "Some 7" and ign = 255 and train = False
      and ssl = None and g = ex_gta5 and c = "ex_cs False None"
      and lines = "[''a.png'' @ [CHR 0x0A]]" and lines' = "[''x/x_1_2_leftImg8bit.png'' @ [CHR 0x0A]]"]
  from t a b j ex_gta5_init [of "Some 7"] ex_cs_init [of "Some 7" None]
  show ?thesis by simp
qed

section \<open>The steps of \<^verbatim>\<open>__getitem__\<close>\<close>

lemma open_file_Inr_iff: "open_file m p = Inr x \<longleftrightarrow> m p = Some x"
  by (simp add: open_file_def split: option.splits)

lemma finish_sample_fields:
  "finish_sample np mean img lbl name = Inr s \<Longrightarrow>
     s_label s = lbl \<and> s_name s = name \<and> s_size s = (height img, width img, 3)"
  by (auto simp: finish_sample_def Let_def bind_err_Inr_iff)

lemma finish_sample_label_only:
  "finish_sample np mean img lbl name = Inr s \<Longrightarrow>
   finish_sample np' mean' img' lbl name' = Inr s' \<Longrightarrow> s_label s' = s_label s"
  by (simp add: finish_sample_fields)

lemma GTA5_getitem_Inr:
  assumes "GTA5_getitem np fs ds i = Inr s"
  shows "\<exists>entry img0 lbl0 img1 lbl1.
    py_index (gta5_files ds) i = Inr entry
    \<and> image_rgb fs (f_image entry) = Some img0
    \<and> image_label fs (f_label entry) = Some lbl0
    \<and> (case gta5_transform ds of None \<Rightarrow> Inr (img0, lbl0) | Some t \<Rightarrow> t (img0, lbl0))
         = Inr (img1, lbl1)
    \<and> finish_sample np (gta5_mean ds) (center_crop (0, 0, 0) (gta5_crop_size ds) img1)
         (encode_segmap (asarray_label (center_crop 0 (gta5_crop_size ds) lbl1))
            (gta5_class_mapping ds) (gta5_ignore_index ds))
         (f_name entry) = Inr s"
  using assms
  by (auto simp: GTA5_getitem_def bind_err_Inr_iff open_file_Inr_iff Let_def)

lemma CityScapes_getitem_Inr:
  assumes "CityScapes_getitem np fs ds i = Inr s"
  shows "\<exists>entry img0 lbl0 img1 lbl1.
    py_index (cs_files ds) i = Inr entry
    \<and> image_rgb fs (f_image entry) = Some img0
    \<and> image_label fs (f_label entry) = Some lbl0
    \<and> (case cs_transform ds of None \<Rightarrow> Inr (img0, lbl0) | Some t \<Rightarrow> t (img0, lbl0))
         = Inr (img1, lbl1)
    \<and> finish_sample np (cs_mean ds)
         (if py_in ''train'' (cs_set ds) then center_crop (0, 0, 0) (cs_crop_size ds) img1
          else img1)
         (if cs_ssl ds \<noteq> Some True
          then encode_segmap
                 (asarray_label (if py_in ''train'' (cs_set ds)
                                 then center_crop 0 (cs_crop_size ds) lbl1 else lbl1))
                 (cs_class_mapping ds) (cs_ignore_index ds)
          else asarray_label (if py_in ''train'' (cs_set ds)
                              then center_crop 0 (cs_crop_size ds) lbl1 else lbl1))
         (f_name entry) = Inr s"
  using assms
  by (auto simp: CityScapes_getitem_def bind_err_Inr_iff open_file_Inr_iff Let_def)

lemma GTA5_getitem_index_error:
  "py_index (gta5_files ds) i = Inl e \<Longrightarrow> GTA5_getitem np fs ds i = Inl e"
  by (simp add: GTA5_getitem_def bind_err_def)

lemma CityScapes_getitem_index_error:
  "py_index (cs_files ds) i = Inl e \<Longrightarrow> CityScapes_getitem np fs ds i = Inl e"
  by (simp add: CityScapes_getitem_def bind_err_def)

lemma GTA5_getitem_cong_index:
  "py_index (gta5_files ds) i = py_index (gta5_files ds) k \<Longrightarrow>
   GTA5_getitem np fs ds i = GTA5_getitem np fs ds k"
  by (simp add: GTA5_getitem_def)

lemma CityScapes_getitem_cong_index:
  "py_index (cs_files ds) i = py_index (cs_files ds) k \<Longrightarrow>
   CityScapes_getitem np fs ds i = CityScapes_getitem np fs ds k"
  by (simp add: CityScapes_getitem_def)

section \<open>Indexing\<close>

text \<open>
  C2 (as amended). A dataset constructed against an empty manifest has length 0. For a
  dataset of length \<open>n\<close>, \<^verbatim>\<open>__getitem__\<close> with an index below \<open>-n\<close> or at least \<open>n\<close> raises
  \<^verbatim>\<open>IndexError\<close>, before any file is opened; an index in \<open>[-n, 0)\<close> is not rejected: it
  returns what index \<open>n + i\<close> returns, as Python list indexing does.
\<close>

theorem getitem_index_range:
  "(text_lines fs (os_path_join dr ''train.txt'') = Some [] \<longrightarrow>
      GTA5_init fs dr mean cs tr mi ign = Inr g0 \<longrightarrow> GTA5_len g0 = 0)
   \<and> (text_lines fs (os_path_join dr (if train then ''train.txt'' else ''val.txt'')) = Some [] \<longrightarrow>
      CityScapes_init fs dr mean cs tr train mi ign ssl = Inr c0 \<longrightarrow> CityScapes_len c0 = 0)
   \<and> (i < - int (GTA5_len g) \<or> int (GTA5_len g) \<le> i \<longrightarrow>
        GTA5_getitem np fs' g i = Inl IndexError)
   \<and> (i < - int (CityScapes_len c) \<or> int (CityScapes_len c) \<le> i \<longrightarrow>
        CityScapes_getitem np fs' c i = Inl IndexError)
   \<and> (- int (GTA5_len g) \<le> i \<and> i < 0 \<longrightarrow>
        GTA5_getitem np fs' g i = GTA5_getitem np fs' g (int (GTA5_len g) + i))
   \<and> (- int (CityScapes_len c) \<le> i \<and> i < 0 \<longrightarrow>
        CityScapes_getitem np fs' c i = CityScapes_getitem np fs' c (int (CityScapes_len c) + i))"
proof -
  have a: "text_lines fs (os_path_join dr ''train.txt'') = Some [] \<Longrightarrow>
      GTA5_init fs dr mean cs tr mi ign = Inr g0 \<Longrightarrow> GTA5_len g0 = 0"
    using GTA5_init_len [of fs dr mean cs tr mi ign g0 "[]"] by simp
  have b: "text_lines fs (os_path_join dr (if train then ''train.txt'' else ''val.txt'')) = Some [] \<Longrightarrow>
      CityScapes_init fs dr mean cs tr train mi ign ssl = Inr c0 \<Longrightarrow> CityScapes_len c0 = 0"
    using CityScapes_init_len [of fs dr mean cs tr train mi ign ssl c0 "[]"] by simp
  have c: "i < - int (GTA5_len g) \<or> int (GTA5_len g) \<le> i \<Longrightarrow>
        GTA5_getitem np fs' g i = Inl IndexError"
    by (simp add: GTA5_len_def GTA5_getitem_index_error py_index_out_of_range)
  have d: "i < - int (CityScapes_len c) \<or> int (CityScapes_len c) \<le> i \<Longrightarrow>
        CityScapes_getitem np fs' c i = Inl IndexError"
    by (simp add: CityScapes_len_def CityScapes_getitem_index_error py_index_out_of_range)
  have e: "- int (GTA5_len g) \<le> i \<and> i < 0 \<Longrightarrow>
        GTA5_getitem np fs' g i = GTA5_getitem np fs' g (int (GTA5_len g) + i)"
    using py_index_negative [of "gta5_files g" i]
    by (intro GTA5_getitem_cong_index) (simp add: GTA5_len_def)
  have f: "- int (CityScapes_len c) \<le> i \<and> i < 0 \<Longrightarrow>
        CityScapes_getitem np fs' c i = CityScapes_getitem np fs' c (int (CityScapes_len c) + i)"
    using py_index_negative [of "cs_files c" i]
    by (intro CityScapes_getitem_cong_index) (simp add: CityScapes_len_def)
  show ?thesis
    by (intro conjI impI) (erule (1) a, erule (1) b, erule c, erule d, erule e, erule f)
qed

lemma ex_gta5_init_empty: "GTA5_init ex_fs_empty ''r'' ex_mean (Square 1) None None 255
   = Inr (ex_gta5\<lparr>gta5_files := [], gta5_img_ids := []\<rparr>)"
  by (simp add: GTA5_init_def ex_fs_def ex_fs_empty_def os_path_join_def bind_err_def open_file_def
        ex_gta5_def Let_def)

lemma ex_gta5_getitem_0:
  "GTA5_getitem ex_np ex_fs ex_gta5 0 =
     Inr \<lparr>s_image = [[[29]], [[18]], [[7]]], s_label = Encoded [[0]],
          s_size = (1, 1, 3), s_name = ''a''\<rparr>"
  by (simp add: GTA5_getitem_def ex_gta5_def ex_files_gta5_def py_index_def bind_err_def
        open_file_def ex_fs_def ex_rgb_def ex_lab_def center_crop_def pil_crop_def pil_pad_def
        py_round_half_def asarray_label_def encode_segmap_def encode_pixel_def ex_map_def
        finish_sample_def asarray_rgb_def reverse_channels_def sub_mean_def ex_mean_def
        ex_np_def transpose_201_def Let_def upt_rec)

theorem getitem_index_range_witness:
  "text_lines ex_fs_empty (os_path_join ''r'' ''train.txt'') = Some []
   \<and> GTA5_init ex_fs_empty ''r'' ex_mean (Square 1) None None 255
        = Inr (ex_gta5\<lparr>gta5_files := [], gta5_img_ids := []\<rparr>)
   \<and> GTA5_len (ex_gta5\<lparr>gta5_files := [], gta5_img_ids := []\<rparr>) = 0
   \<and> int (GTA5_len ex_gta5) \<le> 1
   \<and> GTA5_getitem ex_np ex_fs ex_gta5 1 = Inl IndexError
   \<and> int (CityScapes_len (ex_cs False None)) \<le> 1
   \<and> CityScapes_getitem ex_np ex_fs (ex_cs False None) 1 = Inl IndexError
   \<and> - int (GTA5_len ex_gta5) \<le> - 1 \<and> (- 1 :: int) < 0
   \<and> GTA5_getitem ex_np ex_fs ex_gta5 (- 1)
        = GTA5_getitem ex_np ex_fs ex_gta5 (int (GTA5_len ex_gta5) + - 1)"
proof -
  have a: "text_lines ex_fs_empty (os_path_join ''r'' ''train.txt'') = Some []"
    by (simp add: ex_fs_empty_def os_path_join_def)
  have l: "int (GTA5_len ex_gta5) \<le> 1" "int (CityScapes_len (ex_cs False None)) \<le> 1"
    "- int (GTA5_len ex_gta5) \<le> - 1" "(- 1 :: int) < 0"
    by (simp_all add: GTA5_len_def ex_gta5_def ex_files_gta5_def CityScapes_len_def ex_cs_def
          ex_files_cs_def)
  note t1 = getitem_index_range [where fs = ex_fs_empty and dr = "''r''" and mean = ex_mean
      and cs = "Square 1" and tr = None and mi = None and ign = 255
      and ?g0.0 = "ex_gta5\<lparr>gta5_files := [], gta5_img_ids := []\<rparr>"
      and train = False and ssl = None and ?c0.0 = "ex_cs False None"
      and g = ex_gta5 and c = "ex_cs False None" and i = 1 and np = ex_np and fs' = ex_fs]
  note t2 = getitem_index_range [where fs = ex_fs_empty and dr = "''r''" and mean = ex_mean
      and cs = "Square 1" and tr = None and mi = None and ign = 255
      and ?g0.0 = "ex_gta5\<lparr>gta5_files := [], gta5_img_ids := []\<rparr>"
      and train = False and ssl = None and ?c0.0 = "ex_cs False None"
      and g = ex_gta5 and c = "ex_cs False None" and i = "- 1" and np = ex_np and fs' = ex_fs]
  from t1 a ex_gta5_init_empty
  have p1: "GTA5_len (ex_gta5\<lparr>gta5_files := [], gta5_img_ids := []\<rparr>) = 0"
    by blast
  from t1 l have p2: "GTA5_getitem ex_np ex_fs ex_gta5 1 = Inl IndexError"
    by blast
  from t1 l have p3: "CityScapes_getitem ex_np ex_fs (ex_cs False None) 1 = Inl IndexError"
    by blast
  from t2 l have p4: "GTA5_getitem ex_np ex_fs ex_gta5 (- 1)
        = GTA5_getitem ex_np ex_fs ex_gta5 (int (GTA5_len ex_gta5) + - 1)"
    by blast
  from a ex_gta5_init_empty l p1 p2 p3 p4 show ?thesis
    by blast
qed

text \<open>Index \<open>-1\<close> on the dataset of length 1 lies outside \<open>[0, 1)\<close> and returns the sample
  of entry 0.\<close>

theorem negative_index_counterexample:
  "GTA5_len ex_gta5 = 1
   \<and> GTA5_getitem ex_np ex_fs ex_gta5 (- 1) =
       Inr \<lparr>s_image = [[[29]], [[18]], [[7]]], s_label = Encoded [[0]],
            s_size = (1, 1, 3), s_name = ''a''\<rparr>"
proof -
  have "py_index (gta5_files ex_gta5) (- 1) = py_index (gta5_files ex_gta5) 0"
    by (simp add: py_index_def ex_gta5_def ex_files_gta5_def)
  then have e: "GTA5_getitem ex_np ex_fs ex_gta5 (- 1) = GTA5_getitem ex_np ex_fs ex_gta5 0"
    by (rule GTA5_getitem_cong_index)
  have l: "GTA5_len ex_gta5 = 1"
    by (simp add: GTA5_len_def ex_gta5_def ex_files_gta5_def)
  show ?thesis
    by (simp only: e l ex_gta5_getitem_0 simp_thms)
qed

lemma upt_3: "[0..<3] = [0, 1, 2]"
  by (simp add: upt_rec)

lemma length_3_cases: "length xs = 3 \<Longrightarrow> \<exists>a b c. xs = [a, b, c]"
  by (cases xs; cases "tl xs"; cases "tl (tl xs)") auto

lemma length_1_cases: "length xs = 1 \<Longrightarrow> \<exists>a. xs = [a]"
  by (cases xs) auto

lemma sub_mean_Inr: "sub_mean np mean a = Inr b \<Longrightarrow> length mean = 3 \<or> length mean = 1"
  by (auto simp: sub_mean_def split: if_splits)

section \<open>The photometric steps\<close>

lemma transposed_tabulated:
  "transpose_201 (map (map g) (map (\<lambda>i. map (\<lambda>j. f i j) [0..<W]) [0..<H]))
     = map (\<lambda>c. map (\<lambda>i. map (\<lambda>j. g (f i j) ! c) [0..<W]) [0..<H]) [0..<3]"
  by (simp add: transpose_201_def comp_def)

lemma reversed_tabulated:
  "reverse_channels (map (\<lambda>i. map (\<lambda>j. f i j) [0..<W]) [0..<H])
     = map (\<lambda>i. map (\<lambda>j. rev (f i j)) [0..<W]) [0..<H]"
  by (simp add: reverse_channels_def comp_def)

lemma channel_cases: "c < (3::nat) \<Longrightarrow> c = 0 \<or> c = 1 \<or> c = 2"
  by arith

lemma entry_mean3:
  assumes "c < 3"
  shows "map2 (isub np) (rev (case p of (r, g, b) \<Rightarrow> [f32 np r, f32 np g, f32 np b])) [x, y, z] ! c
           = isub np (f32 np (bgr_channel c p)) ([x, y, z] ! c)"
proof -
  obtain r g b where p: "p = (r, g, b)" by (cases p) auto
  from channel_cases [OF assms] show ?thesis
    by (elim disjE) (simp_all add: p)
qed

lemma entry_mean1:
  assumes "c < 3"
  shows "map (\<lambda>v. isub np v x) (rev (case p of (r, g, b) \<Rightarrow> [f32 np r, f32 np g, f32 np b])) ! c
           = isub np (f32 np (bgr_channel c p)) x"
proof -
  obtain r g b where p: "p = (r, g, b)" by (cases p) auto
  from channel_cases [OF assms] show ?thesis
    by (elim disjE) (simp_all add: p)
qed

lemma map_upt_cong: "(\<And>c. c < n \<Longrightarrow> f c = g c) \<Longrightarrow> map f [0..<n] = map g [0..<n]"
  by simp

lemma image_mean3:
  "transpose_201 (map (map (\<lambda>px. map2 (isub np) px [x, y, z]))
                    (reverse_channels (asarray_rgb np img)))
     = spec_image np [x, y, z] img"
  unfolding asarray_rgb_def reversed_tabulated transposed_tabulated spec_image_def
  by (rule map_upt_cong) (simp add: entry_mean3)

lemma image_mean1:
  "transpose_201 (map (map (map (\<lambda>v. isub np v x)))
                    (reverse_channels (asarray_rgb np img)))
     = spec_image np [x] img"
  unfolding asarray_rgb_def reversed_tabulated transposed_tabulated spec_image_def
  by (rule map_upt_cong) (simp add: entry_mean1)

lemma finish_sample_image:
  assumes "finish_sample np mean img lbl name = Inr s"
  shows "s_image s = spec_image np mean img"
proof -
  from assms obtain a where a: "sub_mean np mean (reverse_channels (asarray_rgb np img)) = Inr a"
      and s: "s_image s = transpose_201 a"
    by (auto simp: finish_sample_def Let_def bind_err_Inr_iff)
  from sub_mean_Inr [OF a] show ?thesis
  proof
    assume "length mean = 3"
    then obtain x y z where m: "mean = [x, y, z]" using length_3_cases by blast
    from a have "a = map (map (\<lambda>px. map2 (isub np) px [x, y, z]))
                      (reverse_channels (asarray_rgb np img))"
      by (simp add: m sub_mean_def)
    with s show ?thesis by (simp only: m image_mean3)
  next
    assume "length mean = 1"
    then obtain x where m: "mean = [x]" using length_1_cases by blast
    from a have "a = map (map (map (\<lambda>v. isub np v x)))
                      (reverse_channels (asarray_rgb np img))"
      by (simp add: m sub_mean_def)
    with s show ?thesis by (simp only: m image_mean1)
  qed
qed

section \<open>Center crop\<close>

lemma pil_zip_sel [simp]:
  "width (pil_zip a b) = width a" "height (pil_zip a b) = height a"
  "pixel (pil_zip a b) i j = (pixel a i j, pixel b i j)"
  by (simp_all add: pil_zip_def)

lemma pil_pad_sel [simp]:
  "width (pil_pad fill l t r b img) = l + width img + r"
  "height (pil_pad fill l t r b img) = t + height img + b"
  by (simp_all add: pil_pad_def)

lemma pil_pad_zip:
  "width a = width b \<Longrightarrow> height a = height b \<Longrightarrow>
   pil_pad (fa, fb) l t r bt (pil_zip a b) = pil_zip (pil_pad fa l t r bt a) (pil_pad fb l t r bt b)"
  by (simp add: pil_pad_def pil_zip_def fun_eq_iff)

lemma pil_crop_zip:
  "pil_crop t l h w (pil_zip a b) = pil_zip (pil_crop t l h w a) (pil_crop t l h w b)"
  by (simp add: pil_crop_def pil_zip_def)

lemma center_crop_cases:
  assumes "setup_size cs = (ch, cw)"
  shows "center_crop fill cs img =
     (if cw > width img \<or> ch > height img
      then (if cw = width (padded fill ch cw img) \<and> ch = height (padded fill ch cw img)
            then padded fill ch cw img
            else pil_crop (py_round_half (height (padded fill ch cw img) - ch))
                   (py_round_half (width (padded fill ch cw img) - cw)) ch cw
                   (padded fill ch cw img))
      else pil_crop (py_round_half (height img - ch)) (py_round_half (width img - cw)) ch cw img)"
  using assms by (simp add: center_crop_def Let_def padded_def)

lemma padded_zip:
  "width a = width b \<Longrightarrow> height a = height b \<Longrightarrow>
   padded (fa, fb) ch cw (pil_zip a b) = pil_zip (padded fa ch cw a) (padded fb ch cw b)"
  by (simp add: padded_def pil_pad_zip)

lemma padded_dims:
  "width a = width b \<Longrightarrow> width (padded fa ch cw a) = width (padded fb ch cw b)"
  "height a = height b \<Longrightarrow> height (padded fa ch cw a) = height (padded fb ch cw b)"
  by (simp_all add: padded_def)

lemma center_crop_zip:
  assumes w: "width a = width b" and h: "height a = height b"
  shows "center_crop (fa, fb) cs (pil_zip a b)
           = pil_zip (center_crop fa cs a) (center_crop fb cs b)"
proof -
  obtain ch cw where cs: "setup_size cs = (ch, cw)" by (cases "setup_size cs") auto
  have pw: "width (padded fa ch cw a) = width (padded fb ch cw b)"
    and ph: "height (padded fa ch cw a) = height (padded fb ch cw b)"
    using w h by (simp_all add: padded_def)
  show ?thesis
    unfolding center_crop_cases [OF cs] padded_zip [OF w h] pil_crop_zip
    using w h pw ph by simp
qed

lemma py_round_half_centre: "py_round_half d = centre d"
proof (cases "even d")
  case True
  then show ?thesis
    by (simp add: py_round_half_def centre_def Let_def even_iff_mod_2_eq_zero)
next
  case False
  then obtain k where d: "d = 2 * k + 1" by (elim oddE)
  have o: "d mod 2 \<noteq> 0" "odd d" "d div 2 = k" "(d + 1) div 4 = (k + 1) div 2"
    unfolding d by presburger+
  show ?thesis
  proof (cases "even k")
    case True
    then have "(k + 1) div 2 * 2 = k" by presburger
    with True o show ?thesis
      by (simp add: py_round_half_def centre_def Let_def mult.commute)
  next
    case False
    then have "(k + 1) div 2 * 2 = k + 1" by presburger
    with False o show ?thesis
      by (simp add: py_round_half_def centre_def Let_def mult.commute)
  qed
qed

lemma centre_le: "centre d \<le> d"
proof -
  have "2 * ((d + 1) div 4) \<le> d" by presburger
  then show ?thesis by (simp add: centre_def)
qed

lemma centre_0 [simp]: "centre 0 = 0"
  by (simp add: centre_def)

lemma centre_inside: "c \<le> n \<Longrightarrow> i < c \<Longrightarrow> centre (n - c) + i < n"
  using centre_le [of "n - c"] by simp

lemma pad_sum: "n < c \<Longrightarrow> (c - n) div 2 + n + (c - n + 1) div 2 = (c::nat)"
  by presburger

lemma crop_source_inside: "crop_source c n i = Some a \<Longrightarrow> i < c \<Longrightarrow> a < n"
  using centre_le [of "n - c"]
  by (auto simp: crop_source_def split: if_splits)

lemma crop_source_large: "c \<le> n \<Longrightarrow> crop_source c n i = Some (centre (n - c) + i)"
  by (simp add: crop_source_def)

lemma pixel_padded:
  assumes "(if height img < ch then i < ch else i < height img)"
      and "(if width img < cw then j < cw else j < width img)"
  shows "pixel (padded fill ch cw img) i j =
     (case (if height img < ch then crop_source ch (height img) i else Some i) of None \<Rightarrow> fill
      | Some a \<Rightarrow> (case (if width img < cw then crop_source cw (width img) j else Some j) of
                     None \<Rightarrow> fill | Some b \<Rightarrow> pixel img a b))"
  using assms by (simp add: padded_def pil_pad_def crop_source_def)

lemma dims_padded:
  "height (padded fill ch cw img) = (if height img < ch then ch else height img)"
  "width (padded fill ch cw img) = (if width img < cw then cw else width img)"
  using pad_sum [of "height img" ch] pad_sum [of "width img" cw]
  by (simp_all add: padded_def)

lemma pixel_center_crop:
  assumes cs: "setup_size cs = (ch, cw)" and i: "i < ch" and j: "j < cw"
  shows "pixel (center_crop fill cs img) i j =
     (case crop_source ch (height img) i of None \<Rightarrow> fill
      | Some a \<Rightarrow> (case crop_source cw (width img) j of None \<Rightarrow> fill
                   | Some b \<Rightarrow> pixel img a b))"
proof -
  consider (big) "ch \<le> height img" "cw \<le> width img"
    | (hsmall) "height img < ch" "cw \<le> width img"
    | (wsmall) "ch \<le> height img" "width img < cw"
    | (small) "height img < ch" "width img < cw"
    by linarith
  then show ?thesis
  proof cases
    case big
    then show ?thesis
      by (simp add: center_crop_cases [OF cs] pil_crop_def crop_source_large
            py_round_half_centre)
  next
    case hsmall
    have q: "pixel (center_crop fill cs img) i j
               = pixel (padded fill ch cw img) i (centre (width img - cw) + j)"
      using hsmall
      by (cases "cw = width img")
         (simp_all add: center_crop_cases [OF cs] dims_padded pil_crop_def py_round_half_centre)
    have p: "pixel (padded fill ch cw img) i (centre (width img - cw) + j) =
       (case crop_source ch (height img) i of None \<Rightarrow> fill
        | Some a \<Rightarrow> pixel img a (centre (width img - cw) + j))"
      using hsmall i centre_inside [OF hsmall(2) j]
        pixel_padded [of img ch i cw "centre (width img - cw) + j" fill]
      by (simp split: option.splits)
    show ?thesis
      unfolding q p crop_source_large [OF hsmall(2)] by (simp split: option.splits)
  next
    case wsmall
    have q: "pixel (center_crop fill cs img) i j
               = pixel (padded fill ch cw img) (centre (height img - ch) + i) j"
      using wsmall
      by (cases "ch = height img")
         (simp_all add: center_crop_cases [OF cs] dims_padded pil_crop_def py_round_half_centre)
    have p: "pixel (padded fill ch cw img) (centre (height img - ch) + i) j =
       (case crop_source cw (width img) j of None \<Rightarrow> fill
        | Some b \<Rightarrow> pixel img (centre (height img - ch) + i) b)"
      using wsmall j centre_inside [OF wsmall(1) i]
        pixel_padded [of img ch "centre (height img - ch) + i" cw j fill]
      by (simp split: option.splits)
    show ?thesis
      unfolding q p crop_source_large [OF wsmall(1)] by (simp split: option.splits)
  next
    case small
    have q: "pixel (center_crop fill cs img) i j = pixel (padded fill ch cw img) i j"
      using small by (simp add: center_crop_cases [OF cs] dims_padded)
    have p: "pixel (padded fill ch cw img) i j =
       (case crop_source ch (height img) i of None \<Rightarrow> fill
        | Some a \<Rightarrow> (case crop_source cw (width img) j of None \<Rightarrow> fill
                     | Some b \<Rightarrow> pixel img a b))"
      using small i j pixel_padded [of img ch i cw j fill] by (simp split: option.splits)
    show ?thesis
      unfolding q p by (rule refl)
  qed
qed

lemma length_vals_asarray_label: "length (vals (asarray_label img)) = height img"
  by (simp add: asarray_label_def)

lemma row_vals_asarray_label: "r \<in> set (vals (asarray_label img)) \<Longrightarrow> length r = width img"
  by (auto simp: asarray_label_def)

lemma length_vals_encode_segmap: "length (vals (encode_segmap L m ign)) = length (vals L)"
  by (simp add: encode_segmap_def)

lemma row_vals_encode_segmap:
  "r \<in> set (vals (encode_segmap L m ign)) \<Longrightarrow> \<exists>r' \<in> set (vals L). length r = length r'"
  by (auto simp: encode_segmap_def)

lemma length_spec_image: "length (spec_image np mean img) = 3"
  by (simp add: spec_image_def)

lemma plane_spec_image:
  "p \<in> set (spec_image np mean img) \<Longrightarrow>
     length p = height img \<and> (\<forall>r \<in> set p. length r = width img)"
  by (auto simp: spec_image_def)

lemma finish_sample_dims:
  assumes "finish_sample np mean img lbl name = Inr s"
      and "length (vals lbl) = height img"
      and "\<And>r. r \<in> set (vals lbl) \<Longrightarrow> length r = width img"
  shows "sample_dims s (height img) (width img)"
  using assms finish_sample_fields [OF assms(1)] finish_sample_image [OF assms(1)]
  by (simp add: sample_dims_def length_spec_image plane_spec_image)

lemma encoded_label_dims:
  "length (vals (encode_segmap (asarray_label img) m ign)) = height img"
  "r \<in> set (vals (encode_segmap (asarray_label img) m ign)) \<Longrightarrow> length r = width img"
  using row_vals_encode_segmap [of r "asarray_label img" m ign]
  by (auto simp: length_vals_encode_segmap length_vals_asarray_label row_vals_asarray_label)

lemma center_crop_dims:
  "setup_size cs = (ch, cw) \<Longrightarrow> height (center_crop fill cs img) = ch"
  "setup_size cs = (ch, cw) \<Longrightarrow> width (center_crop fill cs img) = cw"
  by (simp_all add: height_center_crop width_center_crop)

lemma GTA5_getitem_dims:
  assumes "GTA5_getitem np fs g i = Inr s" and cs: "setup_size (gta5_crop_size g) = (ch, cw)"
  shows "sample_dims s ch cw"
proof -
  from GTA5_getitem_Inr [OF assms(1)] obtain entry :: file_entry and img1 lbl1 where
    f: "finish_sample np (gta5_mean g) (center_crop (0, 0, 0) (gta5_crop_size g) img1)
       (encode_segmap (asarray_label (center_crop 0 (gta5_crop_size g) lbl1))
          (gta5_class_mapping g) (gta5_ignore_index g))
       (f_name entry) = Inr s"
    by auto
  have "sample_dims s (height (center_crop (0, 0, 0) (gta5_crop_size g) img1))
          (width (center_crop (0, 0, 0) (gta5_crop_size g) img1))"
    by (rule finish_sample_dims [OF f]) (simp_all add: encoded_label_dims center_crop_dims [OF cs])
  then show ?thesis by (simp add: center_crop_dims [OF cs])
qed

lemma CityScapes_getitem_dims:
  assumes "CityScapes_getitem np fs c i = Inr s" and tr: "py_in ''train'' (cs_set c)"
      and cs: "setup_size (cs_crop_size c) = (ch, cw)"
  shows "sample_dims s ch cw"
proof -
  from CityScapes_getitem_Inr [OF assms(1)] obtain entry :: file_entry and img1 lbl1 where
    f: "finish_sample np (cs_mean c)
       (if py_in ''train'' (cs_set c) then center_crop (0, 0, 0) (cs_crop_size c) img1 else img1)
       (if cs_ssl c \<noteq> Some True
        then encode_segmap
               (asarray_label (if py_in ''train'' (cs_set c)
                               then center_crop 0 (cs_crop_size c) lbl1 else lbl1))
               (cs_class_mapping c) (cs_ignore_index c)
        else asarray_label (if py_in ''train'' (cs_set c)
                            then center_crop 0 (cs_crop_size c) lbl1 else lbl1))
       (f_name entry) = Inr s"
    by auto
  have "sample_dims s (height (center_crop (0, 0, 0) (cs_crop_size c) img1))
          (width (center_crop (0, 0, 0) (cs_crop_size c) img1))"
    by (rule finish_sample_dims [OF f [unfolded if_P [OF tr]]])
       (auto simp: encoded_label_dims center_crop_dims [OF cs] length_vals_asarray_label
          row_vals_asarray_label split: if_splits)
  then show ?thesis by (simp add: center_crop_dims [OF cs])
qed

lemma rows_asarray_label: "\<forall>r \<in> set (vals (asarray_label img)). length r = width img"
  by (simp add: row_vals_asarray_label)

lemma rows_encoded_label:
  "\<forall>r \<in> set (vals (encode_segmap (asarray_label img) m ign)). length r = width img"
  by (simp add: encoded_label_dims)

lemma GTA5_getitem_crop:
  assumes "GTA5_getitem np fs g i = Inr s"
  shows "\<exists>entry img0 lbl0 img1 lbl1.
    py_index (gta5_files g) i = Inr entry
    \<and> image_rgb fs (f_image entry) = Some img0
    \<and> image_label fs (f_label entry) = Some lbl0
    \<and> (case gta5_transform g of None \<Rightarrow> Inr (img0, lbl0) | Some t \<Rightarrow> t (img0, lbl0))
         = Inr (img1, lbl1)
    \<and> s_image s = spec_image np (gta5_mean g) (center_crop (0, 0, 0) (gta5_crop_size g) img1)
    \<and> s_label s = encode_segmap (asarray_label (center_crop 0 (gta5_crop_size g) lbl1))
                     (gta5_class_mapping g) (gta5_ignore_index g)"
proof -
  from GTA5_getitem_Inr [OF assms] obtain entry :: file_entry and img0 lbl0 img1 lbl1 where
    a: "py_index (gta5_files g) i = Inr entry" "image_rgb fs (f_image entry) = Some img0"
       "image_label fs (f_label entry) = Some lbl0"
       "(case gta5_transform g of None \<Rightarrow> Inr (img0, lbl0) | Some t \<Rightarrow> t (img0, lbl0))
         = Inr (img1, lbl1)"
    and f: "finish_sample np (gta5_mean g) (center_crop (0, 0, 0) (gta5_crop_size g) img1)
         (encode_segmap (asarray_label (center_crop 0 (gta5_crop_size g) lbl1))
            (gta5_class_mapping g) (gta5_ignore_index g))
         (f_name entry) = Inr s"
    by (elim exE conjE)
  from finish_sample_fields [OF f] have
    l: "s_label s = encode_segmap (asarray_label (center_crop 0 (gta5_crop_size g) lbl1))
                     (gta5_class_mapping g) (gta5_ignore_index g)"
    by (rule conjunct1)
  from a finish_sample_image [OF f] l show ?thesis by (intro exI conjI)
qed

lemma CityScapes_getitem_crop:
  assumes "CityScapes_getitem np fs c i = Inr s" and tr: "py_in ''train'' (cs_set c)"
  shows "\<exists>entry img0 lbl0 img1 lbl1.
    py_index (cs_files c) i = Inr entry
    \<and> image_rgb fs (f_image entry) = Some img0
    \<and> image_label fs (f_label entry) = Some lbl0
    \<and> (case cs_transform c of None \<Rightarrow> Inr (img0, lbl0) | Some t \<Rightarrow> t (img0, lbl0))
         = Inr (img1, lbl1)
    \<and> s_image s = spec_image np (cs_mean c) (center_crop (0, 0, 0) (cs_crop_size c) img1)
    \<and> (cs_ssl c = Some True \<longrightarrow>
          s_label s = asarray_label (center_crop 0 (cs_crop_size c) lbl1))
    \<and> (cs_ssl c \<noteq> Some True \<longrightarrow>
          s_label s = encode_segmap (asarray_label (center_crop 0 (cs_crop_size c) lbl1))
                        (cs_class_mapping c) (cs_ignore_index c))"
proof -
  from CityScapes_getitem_Inr [OF assms(1)] obtain entry :: file_entry and img0 lbl0 img1 lbl1
    where
    a: "py_index (cs_files c) i = Inr entry" "image_rgb fs (f_image entry) = Some img0"
       "image_label fs (f_label entry) = Some lbl0"
       "(case cs_transform c of None \<Rightarrow> Inr (img0, lbl0) | Some t \<Rightarrow> t (img0, lbl0))
         = Inr (img1, lbl1)"
    and f: "finish_sample np (cs_mean c)
         (if py_in ''train'' (cs_set c) then center_crop (0, 0, 0) (cs_crop_size c) img1
          else img1)
         (if cs_ssl c \<noteq> Some True
          then encode_segmap
                 (asarray_label (if py_in ''train'' (cs_set c)
                                 then center_crop 0 (cs_crop_size c) lbl1 else lbl1))
                 (cs_class_mapping c) (cs_ignore_index c)
          else asarray_label (if py_in ''train'' (cs_set c)
                              then center_crop 0 (cs_crop_size c) lbl1 else lbl1))
         (f_name entry) = Inr s"
    by (elim exE conjE)
  from finish_sample_image [OF f] tr
  have im: "s_image s = spec_image np (cs_mean c) (center_crop (0, 0, 0) (cs_crop_size c) img1)"
    by simp
  from finish_sample_fields [OF f] tr
  have l1: "cs_ssl c = Some True \<longrightarrow>
          s_label s = asarray_label (center_crop 0 (cs_crop_size c) lbl1)"
    and l2: "cs_ssl c \<noteq> Some True \<longrightarrow>
          s_label s = encode_segmap (asarray_label (center_crop 0 (cs_crop_size c) lbl1))
                        (cs_class_mapping c) (cs_ignore_index c)"
    by simp_all
  from a im l1 l2 show ?thesis by (intro exI conjI)
qed

lemma CityScapes_getitem_nocrop:
  assumes "CityScapes_getitem np fs c i = Inr s" and tr: "\<not> py_in ''train'' (cs_set c)"
  shows "\<exists>entry img0 lbl0 img1 lbl1.
    py_index (cs_files c) i = Inr entry
    \<and> image_rgb fs (f_image entry) = Some img0
    \<and> image_label fs (f_label entry) = Some lbl0
    \<and> (case cs_transform c of None \<Rightarrow> Inr (img0, lbl0) | Some t \<Rightarrow> t (img0, lbl0))
         = Inr (img1, lbl1)
    \<and> s_image s = spec_image np (cs_mean c) img1
    \<and> s_size s = (height img1, width img1, 3)
    \<and> (cs_ssl c = Some True \<longrightarrow> s_label s = asarray_label lbl1)
    \<and> (cs_ssl c \<noteq> Some True \<longrightarrow>
          s_label s = encode_segmap (asarray_label lbl1) (cs_class_mapping c) (cs_ignore_index c))
    \<and> length (vals (s_label s)) = height lbl1
    \<and> (\<forall>r \<in> set (vals (s_label s)). length r = width lbl1)"
proof -
  from CityScapes_getitem_Inr [OF assms(1)] obtain entry :: file_entry and img0 lbl0 img1 lbl1
    where
    a: "py_index (cs_files c) i = Inr entry" "image_rgb fs (f_image entry) = Some img0"
       "image_label fs (f_label entry) = Some lbl0"
       "(case cs_transform c of None \<Rightarrow> Inr (img0, lbl0) | Some t \<Rightarrow> t (img0, lbl0))
         = Inr (img1, lbl1)"
    and f: "finish_sample np (cs_mean c)
         (if py_in ''train'' (cs_set c) then center_crop (0, 0, 0) (cs_crop_size c) img1
          else img1)
         (if cs_ssl c \<noteq> Some True
          then encode_segmap
                 (asarray_label (if py_in ''train'' (cs_set c)
                                 then center_crop 0 (cs_crop_size c) lbl1 else lbl1))
                 (cs_class_mapping c) (cs_ignore_index c)
          else asarray_label (if py_in ''train'' (cs_set c)
                              then center_crop 0 (cs_crop_size c) lbl1 else lbl1))
         (f_name entry) = Inr s"
    by (elim exE conjE)
  from finish_sample_image [OF f] tr
  have im: "s_image s = spec_image np (cs_mean c) img1"
    by simp
  from finish_sample_fields [OF f] tr
  have z: "s_size s = (height img1, width img1, 3)"
    and l1: "cs_ssl c = Some True \<longrightarrow> s_label s = asarray_label lbl1"
    and l2: "cs_ssl c \<noteq> Some True \<longrightarrow>
          s_label s = encode_segmap (asarray_label lbl1) (cs_class_mapping c) (cs_ignore_index c)"
    by simp_all
  have d: "length (vals (s_label s)) = height lbl1
    \<and> (\<forall>r \<in> set (vals (s_label s)). length r = width lbl1)"
  proof (cases "cs_ssl c = Some True")
    case True
    with l1 have e: "s_label s = asarray_label lbl1" by (rule mp)
    show ?thesis
      unfolding e by (intro conjI length_vals_asarray_label rows_asarray_label)
  next
    case False
    with l2 have e: "s_label s = encode_segmap (asarray_label lbl1) (cs_class_mapping c)
                                  (cs_ignore_index c)" by (rule mp)
    show ?thesis
      unfolding e by (intro conjI encoded_label_dims(1) rows_encoded_label)
  qed
  from a im z l1 l2 d [THEN conjunct1] d [THEN conjunct2] show ?thesis
    by (intro exI conjI)
qed

lemma center_crop_rectangle:
  assumes cs: "setup_size cs = (h, w)"
  shows "height (center_crop fill cs im) = h \<and> width (center_crop fill cs im) = w
     \<and> (p < h \<longrightarrow> q < w \<longrightarrow>
          pixel (center_crop fill cs im) p q =
            (case crop_source h (height im) p of None \<Rightarrow> fill
             | Some a \<Rightarrow> (case crop_source w (width im) q of None \<Rightarrow> fill
                          | Some b \<Rightarrow> pixel im a b)))"
  using center_crop_dims [OF cs] pixel_center_crop [OF cs, of p q fill im]
  by (intro conjI impI)

text \<open>
  C5 (as amended). \<^verbatim>\<open>GTA5.__getitem__\<close> always, and \<^verbatim>\<open>CityScapes.__getitem__\<close> when
  \<^verbatim>\<open>"train" in self.set\<close>, return the image and the label of the center crops of the
  augmented pair, taken with the one configured crop size: image, label and size have the
  crop height and width. When \<^verbatim>\<open>"train"\<close> is not in \<^verbatim>\<open>self.set\<close>,
  \<^verbatim>\<open>CityScapes.__getitem__\<close> crops nothing: image, label and size are those of the
  augmented pair. A center crop has the configured height and width, and its pixel
  \<open>(p, q)\<close> is the pixel of the input in row \<open>crop_source h (height im) p\<close> and column
  \<open>crop_source w (width im) q\<close>, a position inside the input, or the fill value where the
  input is too small. This rectangle depends on the crop size and on the dimensions of
  the input only, so it is the same for an image and a label of equal dimensions:
  cropping the pair is pairing the crops.
\<close>

theorem center_crop_shared_size:
  "(GTA5_getitem np fs g i = Inr s \<longrightarrow> setup_size (gta5_crop_size g) = (ch, cw) \<longrightarrow>
      (\<exists>entry img0 lbl0 img1 lbl1.
         py_index (gta5_files g) i = Inr entry
         \<and> image_rgb fs (f_image entry) = Some img0
         \<and> image_label fs (f_label entry) = Some lbl0
         \<and> (case gta5_transform g of None \<Rightarrow> Inr (img0, lbl0) | Some t \<Rightarrow> t (img0, lbl0))
              = Inr (img1, lbl1)
         \<and> s_image s = spec_image np (gta5_mean g) (center_crop (0, 0, 0) (gta5_crop_size g) img1)
         \<and> s_label s = encode_segmap (asarray_label (center_crop 0 (gta5_crop_size g) lbl1))
                          (gta5_class_mapping g) (gta5_ignore_index g))
      \<and> sample_dims s ch cw)
   \<and> (CityScapes_getitem np fs c i = Inr s' \<longrightarrow> py_in ''train'' (cs_set c) \<longrightarrow>
        setup_size (cs_crop_size c) = (ch', cw') \<longrightarrow>
      (\<exists>entry img0 lbl0 img1 lbl1.
         py_index (cs_files c) i = Inr entry
         \<and> image_rgb fs (f_image entry) = Some img0
         \<and> image_label fs (f_label entry) = Some lbl0
         \<and> (case cs_transform c of None \<Rightarrow> Inr (img0, lbl0) | Some t \<Rightarrow> t (img0, lbl0))
              = Inr (img1, lbl1)
         \<and> s_image s' = spec_image np (cs_mean c) (center_crop (0, 0, 0) (cs_crop_size c) img1)
         \<and> (cs_ssl c = Some True \<longrightarrow>
               s_label s' = asarray_label (center_crop 0 (cs_crop_size c) lbl1))
         \<and> (cs_ssl c \<noteq> Some True \<longrightarrow>
               s_label s' = encode_segmap (asarray_label (center_crop 0 (cs_crop_size c) lbl1))
                              (cs_class_mapping c) (cs_ignore_index c)))
      \<and> sample_dims s' ch' cw')
   \<and> (CityScapes_getitem np fs c i = Inr s' \<longrightarrow> \<not> py_in ''train'' (cs_set c) \<longrightarrow>
      (\<exists>entry img0 lbl0 img1 lbl1.
         py_index (cs_files c) i = Inr entry
         \<and> image_rgb fs (f_image entry) = Some img0
         \<and> image_label fs (f_label entry) = Some lbl0
         \<and> (case cs_transform c of None \<Rightarrow> Inr (img0, lbl0) | Some t \<Rightarrow> t (img0, lbl0))
              = Inr (img1, lbl1)
         \<and> s_image s' = spec_image np (cs_mean c) img1
         \<and> s_size s' = (height img1, width img1, 3)
         \<and> (cs_ssl c = Some True \<longrightarrow> s_label s' = asarray_label lbl1)
         \<and> (cs_ssl c \<noteq> Some True \<longrightarrow>
               s_label s' = encode_segmap (asarray_label lbl1) (cs_class_mapping c)
                              (cs_ignore_index c))
         \<and> length (vals (s_label s')) = height lbl1
         \<and> (\<forall>r \<in> set (vals (s_label s')). length r = width lbl1)))
   \<and> (setup_size cs = (h, w) \<longrightarrow>
        height (center_crop fill cs im) = h \<and> width (center_crop fill cs im) = w
        \<and> (p < h \<longrightarrow> q < w \<longrightarrow>
             pixel (center_crop fill cs im) p q =
               (case crop_source h (height im) p of None \<Rightarrow> fill
                | Some a \<Rightarrow> (case crop_source w (width im) q of None \<Rightarrow> fill
                             | Some b \<Rightarrow> pixel im a b))))
   \<and> (crop_source n m x = Some k \<longrightarrow> x < n \<longrightarrow> k < m)
   \<and> (width a = width b \<longrightarrow> height a = height b \<longrightarrow>
        center_crop (fa, fb) cs (pil_zip a b)
          = pil_zip (center_crop fa cs a) (center_crop fb cs b))"
proof -
  have c1: "GTA5_getitem np fs g i = Inr s \<longrightarrow> setup_size (gta5_crop_size g) = (ch, cw) \<longrightarrow>
      (\<exists>entry img0 lbl0 img1 lbl1.
         py_index (gta5_files g) i = Inr entry
         \<and> image_rgb fs (f_image entry) = Some img0
         \<and> image_label fs (f_label entry) = Some lbl0
         \<and> (case gta5_transform g of None \<Rightarrow> Inr (img0, lbl0) | Some t \<Rightarrow> t (img0, lbl0))
              = Inr (img1, lbl1)
         \<and> s_image s = spec_image np (gta5_mean g) (center_crop (0, 0, 0) (gta5_crop_size g) img1)
         \<and> s_label s = encode_segmap (asarray_label (center_crop 0 (gta5_crop_size g) lbl1))
                          (gta5_class_mapping g) (gta5_ignore_index g))
      \<and> sample_dims s ch cw"
    by (intro impI conjI GTA5_getitem_crop GTA5_getitem_dims)
  have c2: "CityScapes_getitem np fs c i = Inr s' \<longrightarrow> py_in ''train'' (cs_set c) \<longrightarrow>
        setup_size (cs_crop_size c) = (ch', cw') \<longrightarrow>
      (\<exists>entry img0 lbl0 img1 lbl1.
         py_index (cs_files c) i = Inr entry
         \<and> image_rgb fs (f_image entry) = Some img0
         \<and> image_label fs (f_label entry) = Some lbl0
         \<and> (case cs_transform c of None \<Rightarrow> Inr (img0, lbl0) | Some t \<Rightarrow> t (img0, lbl0))
              = Inr (img1, lbl1)
         \<and> s_image s' = spec_image np (cs_mean c) (center_crop (0, 0, 0) (cs_crop_size c) img1)
         \<and> (cs_ssl c = Some True \<longrightarrow>
               s_label s' = asarray_label (center_crop 0 (cs_crop_size c) lbl1))
         \<and> (cs_ssl c \<noteq> Some True \<longrightarrow>
               s_label s' = encode_segmap (asarray_label (center_crop 0 (cs_crop_size c) lbl1))
                              (cs_class_mapping c) (cs_ignore_index c)))
      \<and> sample_dims s' ch' cw'"
    by (intro impI conjI CityScapes_getitem_crop CityScapes_getitem_dims)
  have c3: "CityScapes_getitem np fs c i = Inr s' \<longrightarrow> \<not> py_in ''train'' (cs_set c) \<longrightarrow>
      (\<exists>entry img0 lbl0 img1 lbl1.
         py_index (cs_files c) i = Inr entry
         \<and> image_rgb fs (f_image entry) = Some img0
         \<and> image_label fs (f_label entry) = Some lbl0
         \<and> (case cs_transform c of None \<Rightarrow> Inr (img0, lbl0) | Some t \<Rightarrow> t (img0, lbl0))
              = Inr (img1, lbl1)
         \<and> s_image s' = spec_image np (cs_mean c) img1
         \<and> s_size s' = (height img1, width img1, 3)
         \<and> (cs_ssl c = Some True \<longrightarrow> s_label s' = asarray_label lbl1)
         \<and> (cs_ssl c \<noteq> Some True \<longrightarrow>
               s_label s' = encode_segmap (asarray_label lbl1) (cs_class_mapping c)
                              (cs_ignore_index c))
         \<and> length (vals (s_label s')) = height lbl1
         \<and> (\<forall>r \<in> set (vals (s_label s')). length r = width lbl1))"
    by (intro impI CityScapes_getitem_nocrop)
  have c4: "setup_size cs = (h, w) \<longrightarrow>
        height (center_crop fill cs im) = h \<and> width (center_crop fill cs im) = w
        \<and> (p < h \<longrightarrow> q < w \<longrightarrow>
             pixel (center_crop fill cs im) p q =
               (case crop_source h (height im) p of None \<Rightarrow> fill
                | Some a \<Rightarrow> (case crop_source w (width im) q of None \<Rightarrow> fill
                             | Some b \<Rightarrow> pixel im a b)))"
    by (rule impI) (rule center_crop_rectangle)
  have c5: "crop_source n m x = Some k \<longrightarrow> x < n \<longrightarrow> k < m"
    by (intro impI) (rule crop_source_inside)
  have c6: "width a = width b \<longrightarrow> height a = height b \<longrightarrow>
        center_crop (fa, fb) cs (pil_zip a b)
          = pil_zip (center_crop fa cs a) (center_crop fb cs b)"
    by (intro impI) (rule center_crop_zip)
  show ?thesis
    by (rule conjI [OF c1 conjI [OF c2 conjI [OF c3 conjI [OF c4 conjI [OF c5 c6]]]]])
qed

lemma GTA5_getitem_label:
  assumes "GTA5_getitem np fs g i = Inr s"
  shows "\<exists>entry img0 lbl0 img1 lbl1.
    py_index (gta5_files g) i = Inr entry
    \<and> image_rgb fs (f_image entry) = Some img0
    \<and> image_label fs (f_label entry) = Some lbl0
    \<and> (case gta5_transform g of None \<Rightarrow> Inr (img0, lbl0) | Some t \<Rightarrow> t (img0, lbl0))
         = Inr (img1, lbl1)
    \<and> s_label s = encode_segmap (asarray_label (center_crop 0 (gta5_crop_size g) lbl1))
                     (gta5_class_mapping g) (gta5_ignore_index g)"
proof -
  from GTA5_getitem_Inr [OF assms] obtain entry :: file_entry and img0 lbl0 img1 lbl1 where
    a: "py_index (gta5_files g) i = Inr entry" "image_rgb fs (f_image entry) = Some img0"
       "image_label fs (f_label entry) = Some lbl0"
       "(case gta5_transform g of None \<Rightarrow> Inr (img0, lbl0) | Some t \<Rightarrow> t (img0, lbl0))
         = Inr (img1, lbl1)"
    and f: "finish_sample np (gta5_mean g) (center_crop (0, 0, 0) (gta5_crop_size g) img1)
         (encode_segmap (asarray_label (center_crop 0 (gta5_crop_size g) lbl1))
            (gta5_class_mapping g) (gta5_ignore_index g))
         (f_name entry) = Inr s"
    by auto
  from finish_sample_fields [OF f] have
    l: "s_label s = encode_segmap (asarray_label (center_crop 0 (gta5_crop_size g) lbl1))
                     (gta5_class_mapping g) (gta5_ignore_index g)"
    by simp
  from a l show ?thesis by (intro exI conjI)
qed

lemma CityScapes_getitem_label:
  assumes "CityScapes_getitem np fs c i = Inr s"
  shows "\<exists>entry img0 lbl0 img1 lbl1.
    py_index (cs_files c) i = Inr entry
    \<and> image_rgb fs (f_image entry) = Some img0
    \<and> image_label fs (f_label entry) = Some lbl0
    \<and> (case cs_transform c of None \<Rightarrow> Inr (img0, lbl0) | Some t \<Rightarrow> t (img0, lbl0))
         = Inr (img1, lbl1)
    \<and> (cs_ssl c = Some True \<longrightarrow>
          s_label s = asarray_label (if py_in ''train'' (cs_set c)
                                     then center_crop 0 (cs_crop_size c) lbl1 else lbl1))
    \<and> (cs_ssl c \<noteq> Some True \<longrightarrow>
          s_label s = encode_segmap
                        (asarray_label (if py_in ''train'' (cs_set c)
                                        then center_crop 0 (cs_crop_size c) lbl1 else lbl1))
                        (cs_class_mapping c) (cs_ignore_index c))"
proof -
  from CityScapes_getitem_Inr [OF assms] obtain entry :: file_entry and img0 lbl0 img1 lbl1 where
    a: "py_index (cs_files c) i = Inr entry" "image_rgb fs (f_image entry) = Some img0"
       "image_label fs (f_label entry) = Some lbl0"
       "(case cs_transform c of None \<Rightarrow> Inr (img0, lbl0) | Some t \<Rightarrow> t (img0, lbl0))
         = Inr (img1, lbl1)"
    and f: "finish_sample np (cs_mean c)
         (if py_in ''train'' (cs_set c) then center_crop (0, 0, 0) (cs_crop_size c) img1
          else img1)
         (if cs_ssl c \<noteq> Some True
          then encode_segmap
                 (asarray_label (if py_in ''train'' (cs_set c)
                                 then center_crop 0 (cs_crop_size c) lbl1 else lbl1))
                 (cs_class_mapping c) (cs_ignore_index c)
          else asarray_label (if py_in ''train'' (cs_set c)
                              then center_crop 0 (cs_crop_size c) lbl1 else lbl1))
         (f_name entry) = Inr s"
    by auto
  from finish_sample_fields [OF f] have
    "cs_ssl c = Some True \<longrightarrow>
          s_label s = asarray_label (if py_in ''train'' (cs_set c)
                                     then center_crop 0 (cs_crop_size c) lbl1 else lbl1)"
    "cs_ssl c \<noteq> Some True \<longrightarrow>
          s_label s = encode_segmap
                        (asarray_label (if py_in ''train'' (cs_set c)
                                        then center_crop 0 (cs_crop_size c) lbl1 else lbl1))
                        (cs_class_mapping c) (cs_ignore_index c)"
    by simp_all
  with a show ?thesis by (intro exI conjI)
qed

section \<open>The label of a sample\<close>


lemma label_matrix_asarray: "label_matrix (\<lambda>v. v) lbl (vals (asarray_label lbl))"
  by (simp add: label_matrix_def asarray_label_def)

lemma label_matrix_encoded:
  "label_matrix (encode_pixel m ign) lbl (vals (encode_segmap (asarray_label lbl) m ign))"
  by (simp add: label_matrix_def asarray_label_def encode_segmap_def)

lemma asarray_label_vals: "asarray_label lbl = Float32 (vals (asarray_label lbl))"
  by (simp add: asarray_label_def)

lemma encode_segmap_vals: "encode_segmap L m ign = Encoded (vals (encode_segmap L m ign))"
  by (simp add: encode_segmap_def)

lemma label_matrix_rows:
  assumes "label_matrix f lbl N" and "r \<in> set N"
  shows "length r = width lbl"
proof -
  from assms(2) obtain k where "k < length N" "r = N ! k"
    by (auto simp: in_set_conv_nth)
  with assms(1) show ?thesis by (simp add: label_matrix_def)
qed

lemma GTA5_getitem_matrix:
  assumes "GTA5_getitem np fs g i = Inr s"
  shows "\<exists>entry img0 lbl0 img1 lbl1 M.
    py_index (gta5_files g) i = Inr entry
    \<and> image_rgb fs (f_image entry) = Some img0
    \<and> image_label fs (f_label entry) = Some lbl0
    \<and> (case gta5_transform g of None \<Rightarrow> Inr (img0, lbl0) | Some t \<Rightarrow> t (img0, lbl0))
         = Inr (img1, lbl1)
    \<and> s_label s = Encoded M
    \<and> label_matrix (encode_pixel (gta5_class_mapping g) (gta5_ignore_index g))
         (center_crop 0 (gta5_crop_size g) lbl1) M"
proof -
  from GTA5_getitem_label [OF assms] obtain entry :: file_entry and img0 lbl0 img1 lbl1 where
    a: "py_index (gta5_files g) i = Inr entry" "image_rgb fs (f_image entry) = Some img0"
       "image_label fs (f_label entry) = Some lbl0"
       "(case gta5_transform g of None \<Rightarrow> Inr (img0, lbl0) | Some t \<Rightarrow> t (img0, lbl0))
         = Inr (img1, lbl1)"
    and l: "s_label s = encode_segmap (asarray_label (center_crop 0 (gta5_crop_size g) lbl1))
                     (gta5_class_mapping g) (gta5_ignore_index g)"
    by (elim exE conjE)
  from l have e: "s_label s = Encoded (vals (s_label s))"
    using encode_segmap_vals by simp
  have m: "label_matrix (encode_pixel (gta5_class_mapping g) (gta5_ignore_index g))
         (center_crop 0 (gta5_crop_size g) lbl1) (vals (s_label s))"
    unfolding l by (rule label_matrix_encoded)
  from a e m show ?thesis by (intro exI conjI)
qed

lemma CityScapes_getitem_matrix:
  assumes "CityScapes_getitem np fs c i = Inr s"
  shows "\<exists>entry img0 lbl0 img1 lbl1 M.
    py_index (cs_files c) i = Inr entry
    \<and> image_rgb fs (f_image entry) = Some img0
    \<and> image_label fs (f_label entry) = Some lbl0
    \<and> (case cs_transform c of None \<Rightarrow> Inr (img0, lbl0) | Some t \<Rightarrow> t (img0, lbl0))
         = Inr (img1, lbl1)
    \<and> (cs_ssl c = Some True \<longrightarrow>
          s_label s = Float32 M
          \<and> label_matrix (\<lambda>v. v)
               (if py_in ''train'' (cs_set c) then center_crop 0 (cs_crop_size c) lbl1 else lbl1) M)
    \<and> (cs_ssl c \<noteq> Some True \<longrightarrow>
          s_label s = Encoded M
          \<and> label_matrix (encode_pixel (cs_class_mapping c) (cs_ignore_index c))
               (if py_in ''train'' (cs_set c) then center_crop 0 (cs_crop_size c) lbl1 else lbl1) M)"
proof -
  from CityScapes_getitem_label [OF assms] obtain entry :: file_entry and img0 lbl0 img1 lbl1 where
    a: "py_index (cs_files c) i = Inr entry" "image_rgb fs (f_image entry) = Some img0"
       "image_label fs (f_label entry) = Some lbl0"
       "(case cs_transform c of None \<Rightarrow> Inr (img0, lbl0) | Some t \<Rightarrow> t (img0, lbl0))
         = Inr (img1, lbl1)"
    and l1: "cs_ssl c = Some True \<longrightarrow>
          s_label s = asarray_label (if py_in ''train'' (cs_set c)
                                     then center_crop 0 (cs_crop_size c) lbl1 else lbl1)"
    and l2: "cs_ssl c \<noteq> Some True \<longrightarrow>
          s_label s = encode_segmap
                        (asarray_label (if py_in ''train'' (cs_set c)
                                        then center_crop 0 (cs_crop_size c) lbl1 else lbl1))
                        (cs_class_mapping c) (cs_ignore_index c)"
    by (elim exE conjE)
  have b1: "cs_ssl c = Some True \<longrightarrow>
          s_label s = Float32 (vals (s_label s))
          \<and> label_matrix (\<lambda>v. v)
               (if py_in ''train'' (cs_set c) then center_crop 0 (cs_crop_size c) lbl1 else lbl1)
               (vals (s_label s))"
  proof
    assume "cs_ssl c = Some True"
    with l1 have e: "s_label s = asarray_label (if py_in ''train'' (cs_set c)
                                     then center_crop 0 (cs_crop_size c) lbl1 else lbl1)"
      by (rule mp)
    show "s_label s = Float32 (vals (s_label s))
          \<and> label_matrix (\<lambda>v. v)
               (if py_in ''train'' (cs_set c) then center_crop 0 (cs_crop_size c) lbl1 else lbl1)
               (vals (s_label s))"
      unfolding e by (intro conjI asarray_label_vals label_matrix_asarray)
  qed
  have b2: "cs_ssl c \<noteq> Some True \<longrightarrow>
          s_label s = Encoded (vals (s_label s))
          \<and> label_matrix (encode_pixel (cs_class_mapping c) (cs_ignore_index c))
               (if py_in ''train'' (cs_set c) then center_crop 0 (cs_crop_size c) lbl1 else lbl1)
               (vals (s_label s))"
  proof
    assume "cs_ssl c \<noteq> Some True"
    with l2 have e: "s_label s = encode_segmap
                        (asarray_label (if py_in ''train'' (cs_set c)
                                        then center_crop 0 (cs_crop_size c) lbl1 else lbl1))
                        (cs_class_mapping c) (cs_ignore_index c)"
      by (rule mp)
    show "s_label s = Encoded (vals (s_label s))
          \<and> label_matrix (encode_pixel (cs_class_mapping c) (cs_ignore_index c))
               (if py_in ''train'' (cs_set c) then center_crop 0 (cs_crop_size c) lbl1 else lbl1)
               (vals (s_label s))"
      unfolding e by (intro conjI encode_segmap_vals label_matrix_encoded)
  qed
  from a b1 b2 show ?thesis by (intro exI conjI)
qed

text \<open>
  C3 (as amended). The label of a returned sample is a matrix of shape \<open>[H, W]\<close>, the
  height and width of the label image handed to the numpy steps: the center crop of the
  augmented label, or, in \<^verbatim>\<open>CityScapes\<close> when \<^verbatim>\<open>"train"\<close> is not in \<^verbatim>\<open>self.set\<close>, the
  augmented label itself. Where the codec runs (\<^verbatim>\<open>GTA5\<close>, and \<^verbatim>\<open>CityScapes\<close> unless ssl)
  it is the array \<^verbatim>\<open>encode_segmap\<close> returned, whose entry \<open>(i, j)\<close> is the encoding of the
  value of pixel \<open>(i, j)\<close>. In \<^verbatim>\<open>CityScapes\<close> ssl mode it is the float32 array
  \<^verbatim>\<open>np.asarray(label, np.float32)\<close>, whose entry \<open>(i, j)\<close> is the value of pixel \<open>(i, j)\<close>:
  no step converts it to an integer array.
\<close>

theorem label_array_kind:
  "(GTA5_getitem np fs g i = Inr s \<longrightarrow>
     (\<exists>entry img0 lbl0 img1 lbl1 M.
        py_index (gta5_files g) i = Inr entry
        \<and> image_rgb fs (f_image entry) = Some img0
        \<and> image_label fs (f_label entry) = Some lbl0
        \<and> (case gta5_transform g of None \<Rightarrow> Inr (img0, lbl0) | Some t \<Rightarrow> t (img0, lbl0))
             = Inr (img1, lbl1)
        \<and> s_label s = Encoded M
        \<and> label_matrix (encode_pixel (gta5_class_mapping g) (gta5_ignore_index g))
             (center_crop 0 (gta5_crop_size g) lbl1) M))
   \<and> (CityScapes_getitem np fs c i = Inr s' \<longrightarrow>
     (\<exists>entry img0 lbl0 img1 lbl1 M.
        py_index (cs_files c) i = Inr entry
        \<and> image_rgb fs (f_image entry) = Some img0
        \<and> image_label fs (f_label entry) = Some lbl0
        \<and> (case cs_transform c of None \<Rightarrow> Inr (img0, lbl0) | Some t \<Rightarrow> t (img0, lbl0))
             = Inr (img1, lbl1)
        \<and> (cs_ssl c = Some True \<longrightarrow>
              s_label s' = Float32 M
              \<and> label_matrix (\<lambda>v. v)
                   (if py_in ''train'' (cs_set c) then center_crop 0 (cs_crop_size c) lbl1
                    else lbl1) M)
        \<and> (cs_ssl c \<noteq> Some True \<longrightarrow>
              s_label s' = Encoded M
              \<and> label_matrix (encode_pixel (cs_class_mapping c) (cs_ignore_index c))
                   (if py_in ''train'' (cs_set c) then center_crop 0 (cs_crop_size c) lbl1
                    else lbl1) M)))
   \<and> (label_matrix f lbl N \<longrightarrow> length N = height lbl \<and> (\<forall>r \<in> set N. length r = width lbl))"
proof -
  have c3: "label_matrix f lbl N \<longrightarrow> length N = height lbl \<and> (\<forall>r \<in> set N. length r = width lbl)"
    using label_matrix_rows [of f lbl N] by (simp add: label_matrix_def)
  show ?thesis
    by (rule conjI [OF impI [OF GTA5_getitem_matrix]
          conjI [OF impI [OF CityScapes_getitem_matrix] c3]])
qed

lemma spec_image_nth:
  "c < 3 \<Longrightarrow> h < height im \<Longrightarrow> w < width im \<Longrightarrow>
   spec_image np mean im ! c ! h ! w
     = isub np (f32 np (bgr_channel c (pixel im h w)))
         (if length mean = 3 then mean ! c else hd mean)"
  by (simp add: spec_image_def)

lemma GTA5_getitem_image:
  assumes "GTA5_getitem np fs g i = Inr s"
  shows "\<exists>entry img0 lbl0 img1 lbl1.
    py_index (gta5_files g) i = Inr entry
    \<and> image_rgb fs (f_image entry) = Some img0
    \<and> image_label fs (f_label entry) = Some lbl0
    \<and> (case gta5_transform g of None \<Rightarrow> Inr (img0, lbl0) | Some t \<Rightarrow> t (img0, lbl0))
         = Inr (img1, lbl1)
    \<and> s_image s = spec_image np (gta5_mean g) (center_crop (0, 0, 0) (gta5_crop_size g) img1)
    \<and> s_size s = (height (center_crop (0, 0, 0) (gta5_crop_size g) img1),
                  width (center_crop (0, 0, 0) (gta5_crop_size g) img1), 3)"
proof -
  from GTA5_getitem_Inr [OF assms] obtain entry :: file_entry and img0 lbl0 img1 lbl1 where
    a: "py_index (gta5_files g) i = Inr entry" "image_rgb fs (f_image entry) = Some img0"
       "image_label fs (f_label entry) = Some lbl0"
       "(case gta5_transform g of None \<Rightarrow> Inr (img0, lbl0) | Some t \<Rightarrow> t (img0, lbl0))
         = Inr (img1, lbl1)"
    and f: "finish_sample np (gta5_mean g) (center_crop (0, 0, 0) (gta5_crop_size g) img1)
         (encode_segmap (asarray_label (center_crop 0 (gta5_crop_size g) lbl1))
            (gta5_class_mapping g) (gta5_ignore_index g))
         (f_name entry) = Inr s"
    by auto
  from finish_sample_fields [OF f] have
    z: "s_size s = (height (center_crop (0, 0, 0) (gta5_crop_size g) img1),
                  width (center_crop (0, 0, 0) (gta5_crop_size g) img1), 3)"
    by simp
  from a finish_sample_image [OF f] z show ?thesis by (intro exI conjI)
qed

lemma CityScapes_getitem_image:
  assumes "CityScapes_getitem np fs c i = Inr s"
  shows "\<exists>entry img0 lbl0 img1 lbl1.
    py_index (cs_files c) i = Inr entry
    \<and> image_rgb fs (f_image entry) = Some img0
    \<and> image_label fs (f_label entry) = Some lbl0
    \<and> (case cs_transform c of None \<Rightarrow> Inr (img0, lbl0) | Some t \<Rightarrow> t (img0, lbl0))
         = Inr (img1, lbl1)
    \<and> s_image s = spec_image np (cs_mean c)
         (if py_in ''train'' (cs_set c) then center_crop (0, 0, 0) (cs_crop_size c) img1
          else img1)
    \<and> s_size s =
        (height (if py_in ''train'' (cs_set c) then center_crop (0, 0, 0) (cs_crop_size c) img1
                 else img1),
         width (if py_in ''train'' (cs_set c) then center_crop (0, 0, 0) (cs_crop_size c) img1
                else img1), 3)"
proof -
  from CityScapes_getitem_Inr [OF assms] obtain entry :: file_entry and img0 lbl0 img1 lbl1 where
    a: "py_index (cs_files c) i = Inr entry" "image_rgb fs (f_image entry) = Some img0"
       "image_label fs (f_label entry) = Some lbl0"
       "(case cs_transform c of None \<Rightarrow> Inr (img0, lbl0) | Some t \<Rightarrow> t (img0, lbl0))
         = Inr (img1, lbl1)"
    and f: "finish_sample np (cs_mean c)
         (if py_in ''train'' (cs_set c) then center_crop (0, 0, 0) (cs_crop_size c) img1
          else img1)
         (if cs_ssl c \<noteq> Some True
          then encode_segmap
                 (asarray_label (if py_in ''train'' (cs_set c)
                                 then center_crop 0 (cs_crop_size c) lbl1 else lbl1))
                 (cs_class_mapping c) (cs_ignore_index c)
          else asarray_label (if py_in ''train'' (cs_set c)
                              then center_crop 0 (cs_crop_size c) lbl1 else lbl1))
         (f_name entry) = Inr s"
    by auto
  from finish_sample_fields [OF f] have
    z: "s_size s =
        (height (if py_in ''train'' (cs_set c) then center_crop (0, 0, 0) (cs_crop_size c) img1
                 else img1),
         width (if py_in ''train'' (cs_set c) then center_crop (0, 0, 0) (cs_crop_size c) img1
                else img1), 3)"
    by simp
  from a finish_sample_image [OF f] z show ?thesis by (intro exI conjI)
qed

lemma shape_spec_image:
  "\<forall>p \<in> set (spec_image np mean im). length p = height im \<and> (\<forall>r \<in> set p. length r = width im)"
  by (intro ballI) (rule plane_spec_image)

text \<open>
  C8. The image of a returned sample is \<open>spec_image\<close> of the image handed to the numpy
  steps (the center crop of the transformed image; in \<^verbatim>\<open>CityScapes\<close> outside train mode the
  transformed image itself): channels reversed, the per-channel mean subtracted,
  channel-first of shape \<open>[3, H, W]\<close>; and the returned size is \<open>(H, W, 3)\<close>.
\<close>

theorem image_channel_first:
  "(GTA5_getitem np fs g i = Inr s \<longrightarrow>
     (\<exists>entry img0 lbl0 img1 lbl1.
        py_index (gta5_files g) i = Inr entry
        \<and> image_rgb fs (f_image entry) = Some img0
        \<and> image_label fs (f_label entry) = Some lbl0
        \<and> (case gta5_transform g of None \<Rightarrow> Inr (img0, lbl0) | Some t \<Rightarrow> t (img0, lbl0))
             = Inr (img1, lbl1)
        \<and> s_image s = spec_image np (gta5_mean g) (center_crop (0, 0, 0) (gta5_crop_size g) img1)
        \<and> s_size s = (height (center_crop (0, 0, 0) (gta5_crop_size g) img1),
                      width (center_crop (0, 0, 0) (gta5_crop_size g) img1), 3)))
   \<and> (CityScapes_getitem np fs c i = Inr s' \<longrightarrow>
     (\<exists>entry img0 lbl0 img1 lbl1.
        py_index (cs_files c) i = Inr entry
        \<and> image_rgb fs (f_image entry) = Some img0
        \<and> image_label fs (f_label entry) = Some lbl0
        \<and> (case cs_transform c of None \<Rightarrow> Inr (img0, lbl0) | Some t \<Rightarrow> t (img0, lbl0))
             = Inr (img1, lbl1)
        \<and> s_image s' = spec_image np (cs_mean c)
             (if py_in ''train'' (cs_set c) then center_crop (0, 0, 0) (cs_crop_size c) img1
              else img1)
        \<and> s_size s' =
            (height (if py_in ''train'' (cs_set c)
                     then center_crop (0, 0, 0) (cs_crop_size c) img1 else img1),
             width (if py_in ''train'' (cs_set c)
                    then center_crop (0, 0, 0) (cs_crop_size c) img1 else img1), 3)))
   \<and> length (spec_image np mean im) = 3
   \<and> (\<forall>p \<in> set (spec_image np mean im).
         length p = height im \<and> (\<forall>r \<in> set p. length r = width im))
   \<and> (k < 3 \<longrightarrow> h < height im \<longrightarrow> w < width im \<longrightarrow>
        spec_image np mean im ! k ! h ! w
          = isub np (f32 np (bgr_channel k (pixel im h w)))
              (if length mean = 3 then mean ! k else hd mean))"
  by (intro conjI impI GTA5_getitem_image CityScapes_getitem_image length_spec_image
        shape_spec_image spec_image_nth)

lemma GTA5_getitem_same_label:
  assumes a: "GTA5_getitem np fs g i = Inr s"
      and b: "GTA5_getitem np' fs (g\<lparr>gta5_mean := mean'\<rparr>) i = Inr s'"
  shows "s_label s' = s_label s"
  using a b
  by (auto simp: GTA5_getitem_def bind_err_Inr_iff open_file_Inr_iff Let_def
        dest!: finish_sample_fields)

lemma CityScapes_getitem_same_label:
  assumes a: "CityScapes_getitem np fs c i = Inr s"
      and b: "CityScapes_getitem np' fs (c\<lparr>cs_mean := mean'\<rparr>) i = Inr s'"
  shows "s_label s' = s_label s"
  using a b
  by (auto simp: CityScapes_getitem_def bind_err_Inr_iff open_file_Inr_iff Let_def
        dest!: finish_sample_fields)

text \<open>
  C9. The label of a returned sample does not depend on the mean nor on the float
  arithmetic: two calls that differ only in these return the same label, and the steps
  from \<^verbatim>\<open>size = image.shape\<close> on return the label they were handed.
\<close>

theorem label_untouched_by_photometric:
  "(GTA5_getitem np fs g i = Inr s \<longrightarrow>
      GTA5_getitem np' fs (g\<lparr>gta5_mean := mean'\<rparr>) i = Inr s' \<longrightarrow> s_label s' = s_label s)
   \<and> (CityScapes_getitem np fs c i = Inr t \<longrightarrow>
        CityScapes_getitem np' fs (c\<lparr>cs_mean := mean'\<rparr>) i = Inr t' \<longrightarrow> s_label t' = s_label t)
   \<and> (finish_sample np mean img lbl name = Inr u \<longrightarrow> s_label u = lbl)"
  using GTA5_getitem_same_label [of np fs g i s np' mean' s']
    CityScapes_getitem_same_label [of np fs c i t np' mean' t']
    finish_sample_fields [of np mean img lbl name u]
  by (intro conjI impI) simp_all

section \<open>Running the small file system\<close>

lemmas ex_eval =
  py_index_def bind_err_def open_file_def ex_fs_def ex_rgb_def ex_lab_def center_crop_def
  pil_crop_def pil_pad_def py_round_half_def asarray_label_def encode_segmap_def
  encode_pixel_def ex_map_def finish_sample_def asarray_rgb_def reverse_channels_def
  sub_mean_def ex_mean_def ex_np_def transpose_201_def Let_def upt_rec

lemma ex_gta5_getitem: "GTA5_getitem ex_np ex_fs ex_gta5 0 = Inr ex_sample_gta5"
  by (simp add: GTA5_getitem_def ex_gta5_def ex_files_gta5_def ex_sample_gta5_def ex_eval)

lemma ex_cs_getitem_val:
  "CityScapes_getitem ex_np ex_fs (ex_cs False None) 0 = Inr ex_sample_val"
  by (simp add: CityScapes_getitem_def ex_cs_def ex_files_cs_def ex_sample_val_def ex_eval)

lemma ex_cs_getitem_ssl:
  "CityScapes_getitem ex_np ex_fs (ex_cs False (Some True)) 0 = Inr ex_sample_ssl"
  by (simp add: CityScapes_getitem_def ex_cs_def ex_files_cs_def ex_sample_ssl_def ex_eval)

lemma ex_cs_getitem_train:
  "CityScapes_getitem ex_np ex_fs (ex_cs True None) 0 = Inr ex_sample_train"
  by (simp add: CityScapes_getitem_def ex_cs_def ex_files_cs_def ex_sample_train_def ex_eval)

lemma hflip_sel:
  "width (hflip a) = width a" "height (hflip a) = height a"
  "pixel (hflip a) i j = pixel a i (width a - 1 - j)"
  by (simp_all add: hflip_def)

lemma mod4_cases: "(k::nat) mod 4 = 0 \<or> k mod 4 = 1 \<or> k mod 4 = 2 \<or> k mod 4 = 3"
  by arith

lemma mod2_cases: "(k::nat) mod 2 = 0 \<or> k mod 2 = 1"
  by arith

lemma py_index_nat: "k < length xs \<Longrightarrow> py_index xs (int k) = Inr (xs ! k)"
  by (simp add: py_index_def)

lemma apply_scale:
  "factors \<noteq> [] \<Longrightarrow>
   apply_transform rs d (RandomScale factors) (img, lbl)
     = Inr (rescale_image rs (factors ! (d_factor d mod length factors)) img,
            rescale_label rs (factors ! (d_factor d mod length factors)) lbl)"
  by (simp add: py_index_nat bind_err_def)

lemma apply_scale4:
  "apply_transform rs d (RandomScale [a, b, c, e]) (img, lbl)
     = Inr (rescale_image rs ([a, b, c, e] ! (d_factor d mod 4)) img,
            rescale_label rs ([a, b, c, e] ! (d_factor d mod 4)) lbl)"
proof -
  have len: "length [a, b, c, e] = 4" by simp
  have lt: "d_factor d mod 4 < length [a, b, c, e]" by simp
  show ?thesis
    unfolding apply_transform.simps len py_index_nat [OF lt] bind_err_def by simp
qed

lemma Compose_two:
  "Compose rs d [a, b] p = apply_transform rs d ([a, b] ! (d_which d mod 2)) p"
  by (cases p) (simp add: Compose_def numeral_2_eq_2)

lemma main_transform_flip:
  "d_which d mod 2 = 0 \<Longrightarrow>
   main_transform rs d (img, lbl)
     = (if d_coin d then Inr (hflip img, hflip lbl) else Inr (img, lbl))"
  by (simp add: main_transform_def Compose_two)

lemma main_transform_scale:
  assumes "d_which d mod 2 = 1"
  shows "main_transform rs d (img, lbl)
     = Inr (rescale_image rs ([1 / 2, 3 / 4, 1, 3 / 2] ! (d_factor d mod 4)) img,
            rescale_label rs ([1 / 2, 3 / 4, 1, 3 / 2] ! (d_factor d mod 4)) lbl)"
proof -
  have "[HorizontalFlip, RandomScale [1 / 2, 3 / 4, 1, 3 / 2]] ! (d_which d mod 2)
          = RandomScale [1 / 2, 3 / 4, 1, 3 / 2]"
    by (simp only: assms nth_Cons_0 nth_Cons_Suc One_nat_def)
  then show ?thesis
    by (simp only: main_transform_def Compose_two apply_scale4)
qed

lemma factor_in_set: "(fs :: rat list) = [a, b, c, e] \<Longrightarrow> fs ! (k mod 4) \<in> set fs"
  by (rule nth_mem) simp

section \<open>Paired augmentation: properties\<close>

text \<open>
  C4. One call of the training transform returns the pair unchanged (the flip was drawn
  and its coin fell the other way), or both flipped, or both rescaled by one factor of the
  candidates 0.5, 0.75, 1, 1.5: never a flip and a rescale, and never different draws for
  the image and the label. A flip keeps the dimensions and mirrors the columns of each.
\<close>

theorem single_sampled_transform:
  "(main_transform rs d (img, lbl) = Inr (img, lbl)
    \<or> main_transform rs d (img, lbl) = Inr (hflip img, hflip lbl)
    \<or> (\<exists>s \<in> set [1 / 2, 3 / 4, 1, 3 / 2].
          main_transform rs d (img, lbl) = Inr (rescale_image rs s img, rescale_label rs s lbl)))
   \<and> (d_which d mod 2 = 0 \<longrightarrow>
        main_transform rs d (img, lbl)
          = (if d_coin d then Inr (hflip img, hflip lbl) else Inr (img, lbl)))
   \<and> (d_which d mod 2 = 1 \<longrightarrow>
        main_transform rs d (img, lbl)
          = Inr (rescale_image rs ([1 / 2, 3 / 4, 1, 3 / 2] ! (d_factor d mod 4)) img,
                 rescale_label rs ([1 / 2, 3 / 4, 1, 3 / 2] ! (d_factor d mod 4)) lbl))
   \<and> width (hflip img) = width img \<and> height (hflip img) = height img
   \<and> width (hflip lbl) = width lbl \<and> height (hflip lbl) = height lbl
   \<and> pixel (hflip img) i j = pixel img i (width img - 1 - j)
   \<and> pixel (hflip lbl) i j = pixel lbl i (width lbl - 1 - j)"
proof -
  have "main_transform rs d (img, lbl) = Inr (img, lbl)
    \<or> main_transform rs d (img, lbl) = Inr (hflip img, hflip lbl)
    \<or> (\<exists>s \<in> set [1 / 2, 3 / 4, 1, 3 / 2].
          main_transform rs d (img, lbl) = Inr (rescale_image rs s img, rescale_label rs s lbl))"
  proof (cases "d_which d mod 2 = 0")
    case True
    then show ?thesis by (simp add: main_transform_flip)
  next
    case False
    with mod2_cases [of "d_which d"] have o: "d_which d mod 2 = 1" by simp
    have "\<exists>s \<in> set [1 / 2, 3 / 4, 1, 3 / 2].
          main_transform rs d (img, lbl) = Inr (rescale_image rs s img, rescale_label rs s lbl)"
      by (rule bexI [where x = "[1 / 2, 3 / 4, 1, 3 / 2] ! (d_factor d mod 4)"])
         (rule main_transform_scale [OF o], rule factor_in_set, rule refl)
    then show ?thesis by (intro disjI2)
  qed
  then show ?thesis
    by (intro conjI impI main_transform_flip main_transform_scale hflip_sel)
qed

theorem single_sampled_transform_witness:
  "d_which ex_draws mod 2 = 1
   \<and> main_transform ex_rs ex_draws (ex_rgb, ex_lab)
       = Inr (rescale_image ex_rs ([1 / 2, 3 / 4, 1, 3 / 2] ! (d_factor ex_draws mod 4)) ex_rgb,
              rescale_label ex_rs ([1 / 2, 3 / 4, 1, 3 / 2] ! (d_factor ex_draws mod 4)) ex_lab)"
proof -
  have o: "d_which ex_draws mod 2 = 1" by (simp add: ex_draws_def)
  note t = single_sampled_transform [of ex_rs ex_draws ex_rgb ex_lab 0 0]
  from t [THEN conjunct2, THEN conjunct2, THEN conjunct1, THEN mp, OF o] o
  show ?thesis by (intro conjI)
qed

section \<open>The properties on the small file system\<close>

lemma ex_gta5_getitem_zero:
  "GTA5_getitem ex_np ex_fs (ex_gta5\<lparr>gta5_mean := [0, 0, 0]\<rparr>) 0 = Inr ex_sample_gta5_zero"
  by (simp add: GTA5_getitem_def ex_gta5_def ex_files_gta5_def ex_sample_gta5_zero_def ex_eval)

lemma ex_crop_sizes:
  "setup_size (gta5_crop_size ex_gta5) = (1, 1)"
  "setup_size (cs_crop_size (ex_cs b ssl)) = (1, 1)"
  by (simp_all add: ex_gta5_def ex_cs_def)

lemma ex_cs_train_set: "py_in ''train'' (cs_set (ex_cs True ssl))"
  by (simp add: ex_cs_def)

lemma ex_cs_ssl: "cs_ssl (ex_cs b ssl) = ssl"
  by (simp add: ex_cs_def)

theorem label_array_kind_witness:
  "GTA5_getitem ex_np ex_fs ex_gta5 0 = Inr ex_sample_gta5
   \<and> s_label ex_sample_gta5 = Encoded [[0]]
   \<and> label_matrix (encode_pixel ex_map 255) (center_crop 0 (Square 1) ex_lab) [[0]]
   \<and> CityScapes_getitem ex_np ex_fs (ex_cs False (Some True)) 0 = Inr ex_sample_ssl
   \<and> cs_ssl (ex_cs False (Some True)) = Some True
   \<and> s_label ex_sample_ssl = Float32 [[7, 9]]
   \<and> label_matrix (\<lambda>v. v) ex_lab [[7, 9]]
   \<and> length [[7, 9 :: int]] = height ex_lab
   \<and> length [7, 9 :: int] = width ex_lab
   \<and> [[7, 9 :: int]] ! 0 ! 1 = uint (pixel ex_lab 0 1)
   \<and> CityScapes_getitem ex_np ex_fs (ex_cs False None) 0 = Inr ex_sample_val
   \<and> cs_ssl (ex_cs False None) \<noteq> Some True
   \<and> s_label ex_sample_val = Encoded [[0, 255]]
   \<and> label_matrix (encode_pixel ex_map 255) ex_lab [[0, 255]]"
proof -
  note t = label_array_kind [where np = ex_np and fs = ex_fs and g = ex_gta5
      and s = ex_sample_gta5 and c = "ex_cs False (Some True)" and i = 0
      and s' = ex_sample_ssl and f = "\<lambda>v. v" and lbl = ex_lab and N = "[[7, 9]]"]
  note u = label_array_kind [where np = ex_np and fs = ex_fs
      and c = "ex_cs False None" and i = 0 and s' = ex_sample_val]
  have g: "s_label ex_sample_gta5 = Encoded [[0]]"
    and l: "s_label ex_sample_ssl = Float32 [[7, 9]]"
    and v: "s_label ex_sample_val = Encoded [[0, 255]]"
    by (simp_all add: ex_sample_gta5_def ex_sample_ssl_def ex_sample_val_def)
  have n: "cs_ssl (ex_cs False None) \<noteq> Some True"
    by (simp add: ex_cs_def)
  from t [THEN conjunct1, THEN mp, OF ex_gta5_getitem]
  have a: "label_matrix (encode_pixel ex_map 255) (center_crop 0 (Square 1) ex_lab) [[0]]"
    unfolding g by (auto simp: ex_gta5_def ex_files_gta5_def py_index_def ex_fs_def)
  from t [THEN conjunct2, THEN conjunct1, THEN mp, OF ex_cs_getitem_ssl]
  have b: "label_matrix (\<lambda>v. v) ex_lab [[7, 9]]"
    unfolding l by (auto simp: ex_cs_def ex_files_cs_def py_index_def ex_fs_def)
  note d = t [THEN conjunct2, THEN conjunct2, THEN mp, OF b]
  from d [THEN conjunct2] have r: "length [7, 9 :: int] = width ex_lab"
    by simp
  from b have x: "[[7, 9 :: int]] ! 0 ! 1 = uint (pixel ex_lab 0 1)"
    by (simp add: label_matrix_def ex_lab_def)
  from u [THEN conjunct2, THEN conjunct1, THEN mp, OF ex_cs_getitem_val]
  have e: "label_matrix (encode_pixel ex_map 255) ex_lab [[0, 255]]"
    unfolding v by (auto simp: ex_cs_def ex_files_cs_def py_index_def ex_fs_def)
  from ex_gta5_getitem g a ex_cs_getitem_ssl ex_cs_ssl [of False "Some True"] l b
    d [THEN conjunct1] r x ex_cs_getitem_val n v e
  show ?thesis by (intro conjI)
qed

text \<open>The target-domain dataset in ssl mode returns a float32 label.\<close>

theorem float_label_counterexample:
  "CityScapes_init ex_fs ''r'' ex_mean (Square 1) None False None 255 (Some True)
     = Inr (ex_cs False (Some True))
   \<and> CityScapes_getitem ex_np ex_fs (ex_cs False (Some True)) 0
     = Inr \<lparr>s_image = [[[29, 59]], [[18, 48]], [[7, 37]]], s_label = Float32 [[7, 9]],
            s_size = (1, 2, 3), s_name = ''x_1_2''\<rparr>"
  using ex_cs_init [of None "Some True"] ex_cs_getitem_ssl
  by (simp only: ex_sample_ssl_def simp_thms)

lemma ex_cs_val_set: "\<not> py_in ''train'' (cs_set (ex_cs False ssl))"
  by (simp add: ex_cs_def)

lemma ex_crop_source:
  "crop_source 1 (height ex_strip) 0 = Some 0"
  "crop_source 2 (width ex_strip) 1 = Some 3"
  "crop_source 1 (height ex_lab) 0 = Some 0"
  "crop_source 4 (width ex_lab) 0 = None"
  "crop_source 4 (width ex_lab) 2 = Some 1"
  by (simp_all add: crop_source_def centre_def ex_strip_def ex_lab_def)

theorem center_crop_shared_size_witness:
  "GTA5_getitem ex_np ex_fs ex_gta5 0 = Inr ex_sample_gta5
   \<and> setup_size (gta5_crop_size ex_gta5) = (1, 1)
   \<and> s_image ex_sample_gta5
       = spec_image ex_np ex_mean (center_crop (0, 0, 0) (Square 1) ex_rgb)
   \<and> s_label ex_sample_gta5
       = encode_segmap (asarray_label (center_crop 0 (Square 1) ex_lab)) ex_map 255
   \<and> sample_dims ex_sample_gta5 1 1
   \<and> CityScapes_getitem ex_np ex_fs (ex_cs True None) 0 = Inr ex_sample_train
   \<and> py_in ''train'' (cs_set (ex_cs True None))
   \<and> setup_size (cs_crop_size (ex_cs True None)) = (1, 1)
   \<and> s_image ex_sample_train
       = spec_image ex_np ex_mean (center_crop (0, 0, 0) (Square 1) ex_rgb)
   \<and> sample_dims ex_sample_train 1 1
   \<and> CityScapes_getitem ex_np ex_fs (ex_cs False None) 0 = Inr ex_sample_val
   \<and> \<not> py_in ''train'' (cs_set (ex_cs False None))
   \<and> s_image ex_sample_val = spec_image ex_np ex_mean ex_rgb
   \<and> s_size ex_sample_val = (height ex_rgb, width ex_rgb, 3)
   \<and> setup_size (Rect 1 2) = (1, 2) \<and> (0::nat) < 1 \<and> (1::nat) < 2
   \<and> pixel (center_crop 0 (Rect 1 2) ex_strip) 0 1 = pixel ex_strip 0 3
   \<and> setup_size (Rect 1 4) = (1, 4) \<and> (0::nat) < 4 \<and> (2::nat) < 4
   \<and> pixel (center_crop 0 (Rect 1 4) ex_lab) 0 0 = 0
   \<and> pixel (center_crop 0 (Rect 1 4) ex_lab) 0 2 = pixel ex_lab 0 1
   \<and> crop_source 2 (width ex_strip) 1 = Some 3 \<and> 3 < width ex_strip"
proof -
  note t = center_crop_shared_size [where np = ex_np and fs = ex_fs and g = ex_gta5
      and i = 0 and s = ex_sample_gta5 and ch = 1 and cw = 1 and c = "ex_cs True None"
      and s' = ex_sample_train and ch' = 1 and cw' = 1 and cs = "Rect 1 2" and h = 1
      and w = 2 and fill = 0 and im = ex_strip and p = 0 and q = 1]
  note u = center_crop_shared_size [where np = ex_np and fs = ex_fs
      and i = 0 and c = "ex_cs False None" and s' = ex_sample_val and cs = "Rect 1 4"
      and h = 1 and w = 4 and fill = 0 and im = ex_lab and p = 0 and q = 0
      and n = 2 and m = "width ex_strip" and k = 3 and x = 1]
  note v = center_crop_shared_size [where cs = "Rect 1 4"
      and h = 1 and w = 4 and fill = 0 and im = ex_lab and p = 0 and q = 2]
  have r2: "setup_size (Rect 1 2) = (1, 2)" and r4: "setup_size (Rect 1 4) = (1, 4)"
    by simp_all
  have z1: "(0::nat) < 1" and z2: "(1::nat) < 2" and z4: "(0::nat) < 4" and t4: "(2::nat) < 4"
    by simp_all
  note a = t [THEN conjunct1, THEN mp, OF ex_gta5_getitem, THEN mp, OF ex_crop_sizes(1)]
  from a [THEN conjunct1]
  have a1: "s_image ex_sample_gta5
       = spec_image ex_np ex_mean (center_crop (0, 0, 0) (Square 1) ex_rgb)"
    and a2: "s_label ex_sample_gta5
       = encode_segmap (asarray_label (center_crop 0 (Square 1) ex_lab)) ex_map 255"
    by (auto simp: ex_gta5_def ex_files_gta5_def py_index_def ex_fs_def)
  note b = t [THEN conjunct2, THEN conjunct1, THEN mp, OF ex_cs_getitem_train, THEN mp,
      OF ex_cs_train_set, THEN mp, OF ex_crop_sizes(2)]
  from b [THEN conjunct1]
  have b1: "s_image ex_sample_train
       = spec_image ex_np ex_mean (center_crop (0, 0, 0) (Square 1) ex_rgb)"
    by (auto simp: ex_cs_def ex_files_cs_def py_index_def ex_fs_def)
  from u [THEN conjunct2, THEN conjunct2, THEN conjunct1, THEN mp, OF ex_cs_getitem_val,
      THEN mp, OF ex_cs_val_set]
  have c1: "s_image ex_sample_val = spec_image ex_np ex_mean ex_rgb"
    and c2: "s_size ex_sample_val = (height ex_rgb, width ex_rgb, 3)"
    by (auto simp: ex_cs_def ex_files_cs_def py_index_def ex_fs_def)
  from t [THEN conjunct2, THEN conjunct2, THEN conjunct2, THEN conjunct1, THEN mp, OF r2,
      THEN conjunct2, THEN conjunct2, THEN mp, OF z1, THEN mp, OF z2]
  have d: "pixel (center_crop 0 (Rect 1 2) ex_strip) 0 1 = pixel ex_strip 0 3"
    by (simp only: ex_crop_source option.case)
  from u [THEN conjunct2, THEN conjunct2, THEN conjunct2, THEN conjunct1, THEN mp, OF r4,
      THEN conjunct2, THEN conjunct2, THEN mp, OF z1, THEN mp, OF z4]
  have e: "pixel (center_crop 0 (Rect 1 4) ex_lab) 0 0 = 0"
    by (simp only: ex_crop_source option.case)
  from v [THEN conjunct2, THEN conjunct2, THEN conjunct2, THEN conjunct1, THEN mp, OF r4,
      THEN conjunct2, THEN conjunct2, THEN mp, OF z1, THEN mp, OF t4]
  have f: "pixel (center_crop 0 (Rect 1 4) ex_lab) 0 2 = pixel ex_lab 0 1"
    by (simp only: ex_crop_source option.case)
  note g = u [THEN conjunct2, THEN conjunct2, THEN conjunct2, THEN conjunct2, THEN conjunct1,
      THEN mp, OF ex_crop_source(2), THEN mp, OF z2]
  from ex_gta5_getitem ex_crop_sizes(1) a1 a2 a [THEN conjunct2]
    ex_cs_getitem_train ex_cs_train_set ex_crop_sizes(2) [of True None] b1 b [THEN conjunct2]
    ex_cs_getitem_val ex_cs_val_set [of None] c1 c2 r2 z1 z2 d r4 z4 t4 e f
    ex_crop_source(2) g
  show ?thesis by (intro conjI)
qed

text \<open>The validation dataset with crop size 1 returns its 1 by 2 image uncropped.\<close>

theorem no_crop_counterexample:
  "CityScapes_init ex_fs ''r'' ex_mean (Square 1) None False None 255 None
     = Inr (ex_cs False None)
   \<and> setup_size (cs_crop_size (ex_cs False None)) = (1, 1)
   \<and> CityScapes_getitem ex_np ex_fs (ex_cs False None) 0
     = Inr \<lparr>s_image = [[[29, 59]], [[18, 48]], [[7, 37]]], s_label = Encoded [[0, 255]],
            s_size = (1, 2, 3), s_name = ''x_1_2''\<rparr>"
  using ex_cs_init [of None None] ex_cs_getitem_val ex_crop_sizes(2) [of False None]
  by (simp only: ex_sample_val_def simp_thms)


theorem image_channel_first_witness:
  "GTA5_getitem ex_np ex_fs ex_gta5 0 = Inr ex_sample_gta5
   \<and> (\<exists>img1. s_image ex_sample_gta5
               = spec_image ex_np (gta5_mean ex_gta5)
                   (center_crop (0, 0, 0) (gta5_crop_size ex_gta5) img1))
   \<and> (0::nat) < 3 \<and> 0 < height ex_rgb \<and> 1 < width ex_rgb
   \<and> spec_image ex_np ex_mean ex_rgb ! 0 ! 0 ! 1
       = isub ex_np (f32 ex_np (bgr_channel 0 (pixel ex_rgb 0 1)))
           (if length ex_mean = 3 then ex_mean ! 0 else hd ex_mean)"
proof -
  note t = image_channel_first [where np = ex_np and fs = ex_fs and g = ex_gta5 and i = 0
      and s = ex_sample_gta5 and mean = ex_mean and im = ex_rgb and k = 0 and h = 0 and w = 1]
  have d: "(0::nat) < 3" "0 < height ex_rgb" "1 < width ex_rgb"
    by (simp_all add: ex_rgb_def)
  from t [THEN conjunct1, THEN mp, OF ex_gta5_getitem]
  have a: "\<exists>img1. s_image ex_sample_gta5
               = spec_image ex_np (gta5_mean ex_gta5)
                   (center_crop (0, 0, 0) (gta5_crop_size ex_gta5) img1)"
    by (elim exE conjE) (erule exI)
  note b = t [THEN conjunct2, THEN conjunct2, THEN conjunct2, THEN conjunct2,
      THEN mp, OF d(1), THEN mp, OF d(2), THEN mp, OF d(3)]
  from ex_gta5_getitem a d b show ?thesis by (intro conjI)
qed

theorem label_untouched_by_photometric_witness:
  "GTA5_getitem ex_np ex_fs ex_gta5 0 = Inr ex_sample_gta5
   \<and> GTA5_getitem ex_np ex_fs (ex_gta5\<lparr>gta5_mean := [0, 0, 0]\<rparr>) 0 = Inr ex_sample_gta5_zero
   \<and> s_label ex_sample_gta5_zero = s_label ex_sample_gta5"
proof -
  note t = label_untouched_by_photometric [where np = ex_np and fs = ex_fs and g = ex_gta5
      and i = 0 and s = ex_sample_gta5 and np' = ex_np and mean' = "[0, 0, 0]"
      and s' = ex_sample_gta5_zero]
  note a = t [THEN conjunct1, THEN mp, OF ex_gta5_getitem, THEN mp, OF ex_gta5_getitem_zero]
  from ex_gta5_getitem ex_gta5_getitem_zero a show ?thesis by (intro conjI)
qed

end
